theory Spec2Isabelle
  imports Complex_Main
begin

section \<open>Conventions\<close>

text \<open>
  The analysers are JavaScript. A JavaScript number is modelled as a \<open>real\<close> (counts and
  levels, which the code only ever produces as non-negative integers, as \<open>nat\<close>); a string
  as a \<open>string\<close>, one \<open>char\<close> for one code unit; \<open>null\<close>/\<open>undefined\<close> as \<open>None\<close>. The
  arithmetic is therefore exact: rounding of IEEE doubles is not modelled.

  The tree-sitter parsers, the \<open>diff\<close> package and the regular-expression engine are not
  part of the repository. The model starts from normalized trees; the two functions of
  \<open>diff\<close> and the match count of a regular expression are parameters.
\<close>

section \<open>astAnalyzer.js: the node model\<close>

text \<open>
  \<open>extractMetadata\<close> builds \<open>{name, parameters, returnType, modifiers, annotations, imports,
  dependencies}\<close>. No extractor ever assigns \<open>returnType\<close>, \<open>modifiers\<close>, \<open>annotations\<close> or
  \<open>dependencies\<close>: they are \<open>null\<close>, \<open>[]\<close>, \<open>[]\<close>, \<open>[]\<close> in every node, so two metadata
  objects have the same \<open>JSON.stringify\<close> image exactly when the three fields below agree.
\<close>

record metadata =
  md_name :: "string option"
  md_parameters :: "string list"
  md_imports :: "string list"

text \<open>
  A normalized node. The positions and the language tag of the source object are read by
  none of the functions below and are left out.
\<close>

datatype node = Node (ntype: string) (ntext: string) (nmeta: metadata) (children: "node list")

text \<open>
  JavaScript compares objects by identity (\<open>Map\<close> keys, \<open>Array.includes\<close>). Every
  normalized node is a fresh object, so its identity is its position in its tree: the
  list of child indices leading to it from the root. An object is a reference together
  with the node stored there.
\<close>

type_synonym ref = "nat list"
type_synonym obj = "ref \<times> node"

text \<open>\<open>x || ''\<close> on a name; \<open>if (x)\<close> on a name.\<close>

definition nameOrEmpty :: "node \<Rightarrow> string" where
  "nameOrEmpty n = (case md_name (nmeta n) of None \<Rightarrow> [] | Some s \<Rightarrow> s)"

definition hasName :: "node \<Rightarrow> bool" where
  "hasName n = (case md_name (nmeta n) of None \<Rightarrow> False | Some s \<Rightarrow> s \<noteq> [])"

subsection \<open>Traversals\<close>

fun findNodeByNameAt :: "ref \<Rightarrow> node \<Rightarrow> string \<Rightarrow> obj option"
  and findNodeByNameIn :: "ref \<Rightarrow> nat \<Rightarrow> node list \<Rightarrow> string \<Rightarrow> obj option" where
  "findNodeByNameAt p (Node ty tx md cs) nm =
     (if md_name md = Some nm then Some (p, Node ty tx md cs)
      else findNodeByNameIn p 0 cs nm)"
| "findNodeByNameIn p i [] nm = None"
| "findNodeByNameIn p i (c # cs) nm =
     (case findNodeByNameAt (p @ [i]) c nm of
        Some found \<Rightarrow> Some found
      | None \<Rightarrow> findNodeByNameIn p (Suc i) cs nm)"

definition findNodeByName :: "node \<Rightarrow> string \<Rightarrow> obj option" where
  "findNodeByName ast nm = findNodeByNameAt [] ast nm"

fun collectNamedNodesAt :: "ref \<Rightarrow> node \<Rightarrow> obj list"
  and collectNamedNodesIn :: "ref \<Rightarrow> nat \<Rightarrow> node list \<Rightarrow> obj list" where
  "collectNamedNodesAt p (Node ty tx md cs) =
     (if hasName (Node ty tx md cs) then [(p, Node ty tx md cs)] else [])
       @ collectNamedNodesIn p 0 cs"
| "collectNamedNodesIn p i [] = []"
| "collectNamedNodesIn p i (c # cs) =
     collectNamedNodesAt (p @ [i]) c @ collectNamedNodesIn p (Suc i) cs"

definition collectNamedNodes :: "node \<Rightarrow> obj list" where
  "collectNamedNodes ast = collectNamedNodesAt [] ast"

fun collectAllNodesAt :: "ref \<Rightarrow> node \<Rightarrow> obj list"
  and collectAllNodesIn :: "ref \<Rightarrow> nat \<Rightarrow> node list \<Rightarrow> obj list" where
  "collectAllNodesAt p (Node ty tx md cs) = (p, Node ty tx md cs) # collectAllNodesIn p 0 cs"
| "collectAllNodesIn p i [] = []"
| "collectAllNodesIn p i (c # cs) =
     collectAllNodesAt (p @ [i]) c @ collectAllNodesIn p (Suc i) cs"

definition collectAllNodes :: "node \<Rightarrow> obj list" where
  "collectAllNodes ast = collectAllNodesAt [] ast"

subsection \<open>Similarity\<close>

text \<open>
  \<open>levenshteinDistance\<close> fills a matrix row by row: row \<open>i\<close> belongs to the first \<open>i\<close>
  characters of \<open>str2\<close>, column \<open>j\<close> to the first \<open>j\<close> characters of \<open>str1\<close>. \<open>levRow\<close> is
  the inner loop over \<open>j\<close>: it walks \<open>str1\<close> together with the entries \<open>matrix[i-1][j-1]\<close>
  and \<open>matrix[i-1][j]\<close> of the previous row and carries \<open>matrix[i][j-1]\<close>.
\<close>

fun levRow :: "char \<Rightarrow> nat \<Rightarrow> (char \<times> nat \<times> nat) list \<Rightarrow> nat list" where
  "levRow c left [] = []"
| "levRow c left ((a, diag, up) # rest) =
     (let v = (if c = a then diag else min (min (diag + 1) (left + 1)) (up + 1))
      in v # levRow c v rest)"

definition levNextRow :: "string \<Rightarrow> nat list \<Rightarrow> nat \<Rightarrow> char \<Rightarrow> nat list" where
  "levNextRow str1 prev i c = i # levRow c i (zip str1 (zip prev (tl prev)))"

fun levRows :: "string \<Rightarrow> nat list \<Rightarrow> nat \<Rightarrow> string \<Rightarrow> nat list" where
  "levRows str1 prev i [] = prev"
| "levRows str1 prev i (c # cs) = levRows str1 (levNextRow str1 prev i c) (Suc i) cs"

definition levenshteinDistance :: "string \<Rightarrow> string \<Rightarrow> nat" where
  "levenshteinDistance str1 str2 = last (levRows str1 [0 ..< Suc (length str1)] 1 str2)"

definition calculateArraySimilarity :: "string list \<Rightarrow> string list \<Rightarrow> real" where
  "calculateArraySimilarity arr1 arr2 =
     (if arr1 = [] \<and> arr2 = [] then 1
      else if arr1 = [] \<or> arr2 = [] then 0
      else real (length (filter (\<lambda>item. item \<in> set arr2) arr1))
             / real (max (length arr1) (length arr2)))"

definition calculateSimilarity :: "node \<Rightarrow> node \<Rightarrow> real" where
  "calculateSimilarity node1 node2 =
     (let name1 = nameOrEmpty node1; name2 = nameOrEmpty node2 in
      if name1 = name2 then 1
      else
        let distance = levenshteinDistance name1 name2;
            maxLength = max (length name1) (length name2);
            nameSimilarity = (if maxLength > 0 then 1 - real distance / real maxLength else 0);
            typeSimilarity = (if ntype node1 = ntype node2 then 1 else 1 / 2);
            paramSimilarity =
              calculateArraySimilarity (md_parameters (nmeta node1)) (md_parameters (nmeta node2))
        in nameSimilarity * (5 / 10) + typeSimilarity * (3 / 10) + paramSimilarity * (2 / 10))"

text \<open>\<open>findBestMatch\<close>: the loop carries \<open>bestMatch\<close> and \<open>bestSimilarity\<close>.\<close>

fun findBestMatchLoop :: "node \<Rightarrow> obj list \<Rightarrow> (obj \<times> real) option \<Rightarrow> real \<Rightarrow> (obj \<times> real) option" where
  "findBestMatchLoop target [] bestMatch bestSimilarity = bestMatch"
| "findBestMatchLoop target (candidate # rest) bestMatch bestSimilarity =
     (let similarity = calculateSimilarity target (snd candidate) in
      if similarity > bestSimilarity
      then findBestMatchLoop target rest (Some (candidate, similarity)) similarity
      else findBestMatchLoop target rest bestMatch bestSimilarity)"

definition findBestMatch :: "node \<Rightarrow> obj list \<Rightarrow> (obj \<times> real) option" where
  "findBestMatch target candidates = findBestMatchLoop target candidates None 0"

subsection \<open>The mapping\<close>

text \<open>
  A JavaScript \<open>Map\<close> from legacy objects to refactored objects, in insertion order. Keys
  are compared by identity, that is by reference. \<open>set\<close> on a key that is present replaces
  the value where it stands.
\<close>

type_synonym mappings = "(obj \<times> obj) list"

definition mapHas :: "mappings \<Rightarrow> obj \<Rightarrow> bool" where
  "mapHas m k = (fst k \<in> set (map (\<lambda>e. fst (fst e)) m))"

fun mapSet :: "mappings \<Rightarrow> obj \<Rightarrow> obj \<Rightarrow> mappings" where
  "mapSet [] k v = [(k, v)]"
| "mapSet (e # m) k v = (if fst (fst e) = fst k then (fst e, v) # m else e # mapSet m k v)"

text \<open>
  \<open>mapHints\<close> is an object from legacy names to refactored names; \<open>Object.entries\<close> lists
  its entries in order, here an association list.
\<close>

fun applyHints :: "node \<Rightarrow> node \<Rightarrow> (string \<times> string) list \<Rightarrow> mappings \<Rightarrow> mappings" where
  "applyHints legacyAST refactoredAST [] m = m"
| "applyHints legacyAST refactoredAST ((legacyName, refactoredName) # hints) m =
     applyHints legacyAST refactoredAST hints
       (case (findNodeByName legacyAST legacyName, findNodeByName refactoredAST refactoredName) of
          (Some legacyNode, Some refactoredNode) \<Rightarrow> mapSet m legacyNode refactoredNode
        | _ \<Rightarrow> m)"

fun autoMap :: "obj list \<Rightarrow> obj list \<Rightarrow> mappings \<Rightarrow> mappings" where
  "autoMap [] refactoredNodes m = m"
| "autoMap (legacyNode # legacyNodes) refactoredNodes m =
     autoMap legacyNodes refactoredNodes
       (if \<not> mapHas m legacyNode then
          (case findBestMatch (snd legacyNode) refactoredNodes of
             Some (bestNode, similarity) \<Rightarrow>
               if similarity > 7 / 10 then mapSet m legacyNode bestNode else m
           | None \<Rightarrow> m)
        else m)"

definition mapElements :: "node \<Rightarrow> node \<Rightarrow> (string \<times> string) list \<Rightarrow> mappings" where
  "mapElements legacyAST refactoredAST mapHints =
     autoMap (collectNamedNodes legacyAST) (collectNamedNodes refactoredAST)
       (applyHints legacyAST refactoredAST mapHints [])"

text \<open>Identity of the keys and of the targets of a mapping.\<close>

definition mapKeys :: "mappings \<Rightarrow> ref list" where
  "mapKeys m = map (\<lambda>e. fst (fst e)) m"

definition mapTargets :: "mappings \<Rightarrow> ref list" where
  "mapTargets m = map (\<lambda>e. fst (snd e)) m"

subsection \<open>Node-level changes\<close>

definition areNodesEquivalent :: "node \<Rightarrow> node \<Rightarrow> bool" where
  "areNodesEquivalent node1 node2 =
     (ntype node1 = ntype node2 \<and> ntext node1 = ntext node2 \<and> nmeta node1 = nmeta node2)"

definition getNodeChanges :: "node \<Rightarrow> node \<Rightarrow> string list" where
  "getNodeChanges node1 node2 =
     (if ntype node1 \<noteq> ntype node2
      then [''Type changed: '' @ ntype node1 @ '' -> '' @ ntype node2] else [])
     @ (if ntext node1 \<noteq> ntext node2 then [''Content modified''] else [])
     @ (if nmeta node1 \<noteq> nmeta node2 then [''Metadata changed''] else [])"

record nodeChange =
  ch_legacy :: obj
  ch_refactored :: obj
  ch_changes :: "string list"

record astChanges =
  added :: "obj list"
  removed :: "obj list"
  modified :: "nodeChange list"

definition findAddedNodes :: "node \<Rightarrow> node \<Rightarrow> mappings \<Rightarrow> obj list" where
  "findAddedNodes legacyAST refactoredAST m =
     (let legacyNodes = collectAllNodes legacyAST;
          refactoredNodes = collectAllNodes refactoredAST
      in filter (\<lambda>refactoredNode.
           \<not> (fst refactoredNode \<in> set (mapTargets m))
           \<and> \<not> list_ex (\<lambda>legacyNode. areNodesEquivalent (snd legacyNode) (snd refactoredNode))
                  legacyNodes)
         refactoredNodes)"

definition findRemovedNodes :: "node \<Rightarrow> node \<Rightarrow> mappings \<Rightarrow> obj list" where
  "findRemovedNodes legacyAST refactoredAST m =
     (let legacyNodes = collectAllNodes legacyAST;
          refactoredNodes = collectAllNodes refactoredAST
      in filter (\<lambda>legacyNode.
           \<not> mapHas m legacyNode
           \<and> \<not> list_ex (\<lambda>refactoredNode. areNodesEquivalent (snd legacyNode) (snd refactoredNode))
                  refactoredNodes)
         legacyNodes)"

fun findModifiedNodes :: "mappings \<Rightarrow> nodeChange list" where
  "findModifiedNodes [] = []"
| "findModifiedNodes ((legacyNode, refactoredNode) # m) =
     (if \<not> areNodesEquivalent (snd legacyNode) (snd refactoredNode)
      then [\<lparr>ch_legacy = legacyNode, ch_refactored = refactoredNode,
             ch_changes = getNodeChanges (snd legacyNode) (snd refactoredNode)\<rparr>]
      else [])
     @ findModifiedNodes m"

definition computeASTChanges :: "node \<Rightarrow> node \<Rightarrow> mappings \<Rightarrow> astChanges" where
  "computeASTChanges legacyAST refactoredAST m =
     \<lparr>added = findAddedNodes legacyAST refactoredAST m,
      removed = findRemovedNodes legacyAST refactoredAST m,
      modified = findModifiedNodes m\<rparr>"

subsection \<open>The diff object\<close>

text \<open>Decimal rendering of a count inside a template string.\<close>

fun showNat :: "nat \<Rightarrow> string" where
  "showNat n = (if n < 10 then [char_of (48 + n)]
                else showNat (n div 10) @ [char_of (48 + n mod 10)])"

fun joinWith :: "string \<Rightarrow> string list \<Rightarrow> string" where
  "joinWith sep [] = []"
| "joinWith sep [x] = x"
| "joinWith sep (x # y # ys) = x @ sep @ joinWith sep (y # ys)"

definition generateASTSummary :: "astChanges \<Rightarrow> string" where
  "generateASTSummary ch =
     joinWith '', ''
       ((if length (added ch) > 0 then [showNat (length (added ch)) @ '' nodes added''] else [])
        @ (if length (removed ch) > 0 then [showNat (length (removed ch)) @ '' nodes removed''] else [])
        @ (if length (modified ch) > 0 then [showNat (length (modified ch)) @ '' nodes modified''] else []))"

definition calculateImpactScore :: "astChanges \<Rightarrow> nat" where
  "calculateImpactScore ch =
     min (length (added ch) * 2 + length (removed ch) * 3 + length (modified ch) * 1) 100"

text \<open>
  One part of the result of \<open>diff.diffLines\<close>: its \<open>added\<close> and \<open>removed\<close> flags and its
  line count.
\<close>

record lineChange =
  lc_added :: bool
  lc_removed :: bool
  lc_count :: nat

fun countLines :: "lineChange list \<Rightarrow> nat \<times> nat \<Rightarrow> nat \<times> nat" where
  "countLines [] acc = acc"
| "countLines (change # rest) (la, lr) =
     countLines rest
       (if lc_added change then (la + lc_count change, lr)
        else if lc_removed change then (la, lr + lc_count change)
        else (la, lr))"

text \<open>
  \<open>computeDiffs\<close> returns \<open>{files, overall}\<close>. The record \<open>overallStats\<close> lists the five
  counters \<open>computeDiffs\<close> writes and, as optional fields, the four further properties its
  readers look up under \<open>overall\<close> (\<open>addedNodes\<close>, \<open>removedNodes\<close>, \<open>modifiedNodes\<close> in
  \<open>classify\<close>, \<open>linesModified\<close> in \<open>calculateMetrics\<close>); \<open>None\<close> is \<open>undefined\<close>.
\<close>

record overallStats =
  nodesAdded :: nat
  nodesRemoved :: nat
  nodesModified :: nat
  linesAdded :: nat
  linesRemoved :: nat
  addedNodes :: "obj list option"
  removedNodes :: "obj list option"
  modifiedNodes :: "nodeChange list option"
  linesModified :: "nat option"

record fileChanges =
  textDiff :: "string option"
  astDiffSummary :: "string option"
  impactScore :: nat
  fc_linesAdded :: nat
  fc_linesRemoved :: nat
  fc_linesModified :: nat

record fileEntry =
  filePath :: string
  changes :: "fileChanges option"

record astDiffs =
  files :: "fileEntry list option"
  overall :: "overallStats option"

definition astToText :: "node \<Rightarrow> string" where
  "astToText ast = ntext ast"

definition computeDiffs ::
  "(string \<Rightarrow> string \<Rightarrow> lineChange list) \<Rightarrow> (string \<Rightarrow> string \<Rightarrow> string \<Rightarrow> string)
     \<Rightarrow> node \<Rightarrow> node \<Rightarrow> mappings \<Rightarrow> astDiffs" where
  "computeDiffs diffLines createPatch legacyAST refactoredAST m =
     (let textDiffs = diffLines (astToText legacyAST) (astToText refactoredAST);
          lines = countLines textDiffs (0, 0);
          astCh = computeASTChanges legacyAST refactoredAST m
      in \<lparr>files = Some
             [\<lparr>filePath = ''main'',
               changes = Some
                 \<lparr>textDiff = Some (createPatch ''main'' (astToText legacyAST) (astToText refactoredAST)),
                  astDiffSummary = Some (generateASTSummary astCh),
                  impactScore = calculateImpactScore astCh,
                  fc_linesAdded = fst lines,
                  fc_linesRemoved = snd lines,
                  fc_linesModified = length (modified astCh)\<rparr>\<rparr>],
           overall = Some
             \<lparr>nodesAdded = length (added astCh),
              nodesRemoved = length (removed astCh),
              nodesModified = length (modified astCh),
              linesAdded = fst lines,
              linesRemoved = snd lines,
              addedNodes = None,
              removedNodes = None,
              modifiedNodes = None,
              linesModified = None\<rparr>\<rparr>)"

section \<open>refactorClassifier.js: the pattern classifier\<close>

subsection \<open>Strings\<close>

text \<open>
  \<open>toLowerCase\<close> on the ASCII letters (a \<open>char\<close> is a byte; other bytes are kept), and
  \<open>String.prototype.includes\<close>.
\<close>

definition toLowerChar :: "char \<Rightarrow> char" where
  "toLowerChar c = (let n = (of_char c :: nat) in if 65 \<le> n \<and> n \<le> 90 then char_of (n + 32) else c)"

definition toLowerCase :: "string \<Rightarrow> string" where
  "toLowerCase s = map toLowerChar s"

fun startsWith :: "string \<Rightarrow> string \<Rightarrow> bool" where
  "startsWith s [] = True"
| "startsWith [] (p # ps) = False"
| "startsWith (c # cs) (p # ps) = (c = p \<and> startsWith cs ps)"

fun strIncludes :: "string \<Rightarrow> string \<Rightarrow> bool" where
  "strIncludes [] sub = (sub = [])"
| "strIncludes (c # cs) sub = (startsWith (c # cs) sub \<or> strIncludes cs sub)"

subsection \<open>The signature library\<close>

text \<open>
  A rule has an optional node kind, an optional text and a condition, one of the strings
  \<open>'isNew'\<close>, \<open>'removed'\<close>, \<open>'nameChanged'\<close>. The detection condition passed by \<open>classify\<close>
  is one of \<open>'added'\<close>, \<open>'removed'\<close>, \<open>'modified'\<close>.
\<close>

datatype ruleCondition = IsNew | Removed | NameChanged

datatype detectCondition = CondAdded | CondRemoved | CondModified

record rule =
  r_type :: "string option"
  r_text :: "string option"
  r_condition :: "ruleCondition option"

record pattern =
  p_type :: string
  p_rules :: "rule list"
  p_level :: nat

definition kindRule :: "string \<Rightarrow> ruleCondition \<Rightarrow> rule" where
  "kindRule t c = \<lparr>r_type = Some t, r_text = None, r_condition = Some c\<rparr>"

definition textRule :: "string \<Rightarrow> ruleCondition \<Rightarrow> rule" where
  "textRule x c = \<lparr>r_type = None, r_text = Some x, r_condition = Some c\<rparr>"

definition condRule :: "ruleCondition \<Rightarrow> rule" where
  "condRule c = \<lparr>r_type = None, r_text = None, r_condition = Some c\<rparr>"

definition extractMethod :: pattern where
  "extractMethod =
     \<lparr>p_type = ''Extract Method'',
      p_rules =
       [kindRule ''function_declaration'' IsNew, kindRule ''method_declaration'' IsNew,
        kindRule ''function_definition'' IsNew],
      p_level = 2\<rparr>"

definition inlineMethod :: pattern where
  "inlineMethod =
     \<lparr>p_type = ''Inline Method'',
      p_rules =
       [kindRule ''function_declaration'' Removed, kindRule ''method_declaration'' Removed,
        kindRule ''function_definition'' Removed],
      p_level = 2\<rparr>"

definition renameSymbol :: pattern where
  "renameSymbol =
     \<lparr>p_type = ''Rename Symbol'',
      p_rules =
       [condRule NameChanged],
      p_level = 1\<rparr>"

definition moveModularize :: pattern where
  "moveModularize =
     \<lparr>p_type = ''Move/Modularize'',
      p_rules =
       [kindRule ''import_statement'' IsNew, kindRule ''import_declaration'' IsNew,
        kindRule ''using_directive'' IsNew],
      p_level = 2\<rparr>"

definition serviceExtraction :: pattern where
  "serviceExtraction =
     \<lparr>p_type = ''Service Extraction'',
      p_rules =
       [textRule ''restcontroller'' IsNew, textRule ''controller'' IsNew,
        textRule ''service'' IsNew, textRule ''@restcontroller'' IsNew,
        textRule ''@controller'' IsNew, textRule ''@service'' IsNew,
        textRule ''express'' IsNew, textRule ''fastify'' IsNew, textRule ''flask'' IsNew,
        textRule ''django'' IsNew],
      p_level = 4\<rparr>"

definition layering :: pattern where
  "layering =
     \<lparr>p_type = ''Layering'',
      p_rules =
       [textRule ''repository'' IsNew, textRule ''dao'' IsNew, textRule ''datalayer'' IsNew,
        textRule ''repository'' IsNew, textRule ''@repository'' IsNew, textRule ''@dao'' IsNew],
      p_level = 3\<rparr>"

definition eventDriven :: pattern where
  "eventDriven =
     \<lparr>p_type = ''Event-driven'',
      p_rules =
       [textRule ''kafka'' IsNew, textRule ''rabbitmq'' IsNew, textRule ''sqs'' IsNew,
        textRule ''eventbus'' IsNew, textRule ''pubsub'' IsNew, textRule ''messaging'' IsNew],
      p_level = 4\<rparr>"

definition cloudMigration :: pattern where
  "cloudMigration =
     \<lparr>p_type = ''Cloud Migration'',
      p_rules =
       [textRule ''aws-sdk'' IsNew, textRule ''s3'' IsNew, textRule ''dynamodb'' IsNew,
        textRule ''lambda'' IsNew, textRule ''ec2'' IsNew, textRule ''rds'' IsNew,
        textRule ''sns'' IsNew, textRule ''sqs'' IsNew, textRule ''azure'' IsNew,
        textRule ''blob'' IsNew, textRule ''cosmosdb'' IsNew, textRule ''functions'' IsNew,
        textRule ''google-cloud'' IsNew, textRule ''gcs'' IsNew, textRule ''firestore'' IsNew,
        textRule ''cloud-functions'' IsNew],
      p_level = 3\<rparr>"

definition errorHandling :: pattern where
  "errorHandling =
     \<lparr>p_type = ''Error Handling'',
      p_rules =
       [textRule ''try'' IsNew, textRule ''catch'' IsNew, textRule ''exception'' IsNew,
        textRule ''error'' IsNew, textRule ''retry'' IsNew, textRule ''fallback'' IsNew],
      p_level = 2\<rparr>"

definition loggingObservability :: pattern where
  "loggingObservability =
     \<lparr>p_type = ''Logging/Observability'',
      p_rules =
       [textRule ''log4j'' IsNew, textRule ''slf4j'' IsNew, textRule ''winston'' IsNew,
        textRule ''bunyan'' IsNew, textRule ''logging'' IsNew, textRule ''logger'' IsNew,
        textRule ''metrics'' IsNew, textRule ''monitoring'' IsNew, textRule ''tracing'' IsNew],
      p_level = 2\<rparr>"

definition testing :: pattern where
  "testing =
     \<lparr>p_type = ''Testing'',
      p_rules =
       [textRule ''junit'' IsNew, textRule ''testng'' IsNew, textRule ''jest'' IsNew,
        textRule ''mocha'' IsNew, textRule ''pytest'' IsNew, textRule ''unittest'' IsNew,
        textRule ''mockito'' IsNew, textRule ''sinon'' IsNew, textRule ''@test'' IsNew,
        textRule ''describe'' IsNew, textRule ''it('' IsNew, textRule ''test('' IsNew],
      p_level = 2\<rparr>"

definition containerization :: pattern where
  "containerization =
     \<lparr>p_type = ''Containerization'',
      p_rules =
       [textRule ''dockerfile'' IsNew, textRule ''docker-compose'' IsNew,
        textRule ''kubernetes'' IsNew, textRule ''k8s'' IsNew, textRule ''helm'' IsNew,
        textRule ''container'' IsNew],
      p_level = 4\<rparr>"

definition infrastructureAsCode :: pattern where
  "infrastructureAsCode =
     \<lparr>p_type = ''Infrastructure as Code'',
      p_rules =
       [textRule ''terraform'' IsNew, textRule ''cloudformation'' IsNew,
        textRule ''arm'' IsNew, textRule ''pulumi'' IsNew, textRule ''cdk'' IsNew,
        textRule ''serverless'' IsNew],
      p_level = 4\<rparr>"

definition databaseMigration :: pattern where
  "databaseMigration =
     \<lparr>p_type = ''Database Migration'',
      p_rules =
       [textRule ''jpa'' IsNew, textRule ''hibernate'' IsNew, textRule ''mybatis'' IsNew,
        textRule ''sequelize'' IsNew, textRule ''typeorm'' IsNew,
        textRule ''sqlalchemy'' IsNew, textRule ''mongoose'' IsNew, textRule ''prisma'' IsNew,
        textRule ''migration'' IsNew, textRule ''schema'' IsNew],
      p_level = 3\<rparr>"

text \<open>\<open>Object.entries(this.patterns)\<close>, in the order of the object literal.\<close>

definition patterns :: "pattern list" where
  "patterns =
     [extractMethod, inlineMethod, renameSymbol, moveModularize,
      serviceExtraction, layering, eventDriven, cloudMigration,
      errorHandling, loggingObservability, testing, containerization,
      infrastructureAsCode, databaseMigration]"

subsection \<open>Detection\<close>

text \<open>
  \<open>detectPatterns\<close> is called on a node (added, removed) and on a change record
  \<open>{legacy, refactored, changes}\<close> (modified). It reads \<open>type\<close>, \<open>text\<close>, \<open>metadata\<close> and
  \<open>changes\<close> of its argument, whichever of them the argument has.
\<close>

datatype subject = OfNode obj | OfChange nodeChange

fun subjType :: "subject \<Rightarrow> string option" where
  "subjType (OfNode n) = Some (ntype (snd n))"
| "subjType (OfChange c) = None"

fun subjText :: "subject \<Rightarrow> string option" where
  "subjText (OfNode n) = Some (ntext (snd n))"
| "subjText (OfChange c) = None"

fun subjMeta :: "subject \<Rightarrow> metadata option" where
  "subjMeta (OfNode n) = Some (nmeta (snd n))"
| "subjMeta (OfChange c) = None"

fun subjChanges :: "subject \<Rightarrow> string list option" where
  "subjChanges (OfNode n) = None"
| "subjChanges (OfChange c) = Some (ch_changes c)"

record refactorTag =
  rtype :: string
  level :: nat
  evidence :: "string list"
  confidence :: real

definition hasNameChange :: "subject \<Rightarrow> bool" where
  "hasNameChange s =
     (case subjChanges s of
        Some chs \<Rightarrow>
          list_ex (\<lambda>change. strIncludes (toLowerCase change) ''name''
                            \<or> strIncludes (toLowerCase change) ''identifier'') chs
      | None \<Rightarrow> False)"

text \<open>A text of a rule counts when it is a non-empty string, a kind likewise.\<close>

definition truthy :: "string option \<Rightarrow> bool" where
  "truthy x = (case x of None \<Rightarrow> False | Some s \<Rightarrow> s \<noteq> [])"

definition lowerTextOrEmpty :: "subject \<Rightarrow> string" where
  "lowerTextOrEmpty s = (case subjText s of None \<Rightarrow> [] | Some t \<Rightarrow> toLowerCase t)"

definition matchesPattern :: "subject \<Rightarrow> rule \<Rightarrow> detectCondition \<Rightarrow> bool" where
  "matchesPattern s r condition =
     (if truthy (r_type r) \<and> r_type r \<noteq> subjType s then False
      else if truthy (r_text r) \<and> \<not> strIncludes (lowerTextOrEmpty s) (toLowerCase (the (r_text r)))
        then False
      else
        (case r_condition r of
           Some IsNew \<Rightarrow> condition = CondAdded
         | Some Removed \<Rightarrow> condition = CondRemoved
         | Some NameChanged \<Rightarrow> condition = CondModified \<and> hasNameChange s
         | None \<Rightarrow> True))"

definition metaName :: "subject \<Rightarrow> string option" where
  "metaName s = (case subjMeta s of None \<Rightarrow> None | Some md \<Rightarrow> md_name md)"

definition generateEvidence :: "subject \<Rightarrow> rule \<Rightarrow> string" where
  "generateEvidence s r =
     joinWith '' ''
       ((if truthy (r_text r) then [''Found '' @ the (r_text r) @ '' usage''] else [])
        @ (if truthy (metaName s) then [''in '' @ the (metaName s)] else [])
        @ (if truthy (subjType s) then [''('' @ the (subjType s) @ '')''] else []))"

definition calculateConfidence :: "subject \<Rightarrow> rule \<Rightarrow> real" where
  "calculateConfidence s r =
     (let c0 = 5 / 10;
          c1 = (if truthy (r_text r) \<and> strIncludes (lowerTextOrEmpty s) (toLowerCase (the (r_text r)))
                then c0 + 3 / 10 else c0);
          c2 = (if truthy (r_type r) \<and> r_type r = subjType s then c1 + 2 / 10 else c1);
          c3 = (case subjMeta s of
                  None \<Rightarrow> c2
                | Some md \<Rightarrow>
                    (let c = (if truthy (md_name md) then c2 + 1 / 10 else c2)
                     in if length (md_imports md) > 0 then c + 1 / 10 else c))
      in min c3 1)"

definition detectRules :: "subject \<Rightarrow> detectCondition \<Rightarrow> pattern \<Rightarrow> refactorTag list" where
  "detectRules s condition p =
     concat (map (\<lambda>r. if matchesPattern s r condition
                       then [\<lparr>rtype = p_type p, level = p_level p,
                              evidence = [generateEvidence s r],
                              confidence = calculateConfidence s r\<rparr>]
                       else [])
                 (p_rules p))"

definition detectPatterns :: "subject \<Rightarrow> detectCondition \<Rightarrow> refactorTag list" where
  "detectPatterns s condition = concat (map (detectRules s condition) patterns)"

definition fileTextRules :: "string \<Rightarrow> pattern \<Rightarrow> refactorTag list" where
  "fileTextRules diffContent p =
     concat (map (\<lambda>r. if truthy (r_text r) \<and> strIncludes diffContent (toLowerCase (the (r_text r)))
                       then [\<lparr>rtype = p_type p, level = p_level p,
                              evidence = [''Found '' @ the (r_text r) @ '' in file changes''],
                              confidence = 8 / 10\<rparr>]
                       else [])
                 (p_rules p))"

definition analyzeFileChanges :: "fileEntry \<Rightarrow> refactorTag list" where
  "analyzeFileChanges file =
     (case changes file of
        None \<Rightarrow> []
      | Some ch \<Rightarrow>
          (if truthy (textDiff ch)
           then concat (map (fileTextRules (toLowerCase (the (textDiff ch)))) patterns)
           else [])
          @ (if truthy (astDiffSummary ch)
             then (let summary = toLowerCase (the (astDiffSummary ch)) in
                   if strIncludes summary ''import'' \<or> strIncludes summary ''dependency''
                   then [\<lparr>rtype = ''Move/Modularize'', level = 2,
                          evidence = [''Import/dependency changes detected''],
                          confidence = 7 / 10\<rparr>]
                   else [])
             else []))"

subsection \<open>Merging\<close>

text \<open>
  \<open>[...new Set([...a, ...b])]\<close>: the concatenation with every repeated string dropped
  after its first occurrence.
\<close>

fun uniq :: "string list \<Rightarrow> string list \<Rightarrow> string list" where
  "uniq seen [] = []"
| "uniq seen (x # xs) = (if x \<in> set seen then uniq seen xs else x # uniq (x # seen) xs)"

definition mergeInto :: "refactorTag \<Rightarrow> refactorTag \<Rightarrow> refactorTag" where
  "mergeInto existing refactor =
     existing\<lparr>level := max (level existing) (level refactor),
              evidence := uniq [] (evidence existing @ evidence refactor),
              confidence := (confidence existing + confidence refactor) / 2\<rparr>"

text \<open>
  The \<open>Map\<close> from type to merged tag, in insertion order; a type that is present is
  updated where it stands.
\<close>

fun mergeStep :: "refactorTag list \<Rightarrow> refactorTag \<Rightarrow> refactorTag list" where
  "mergeStep [] refactor = [refactor]"
| "mergeStep (existing # merged) refactor =
     (if rtype existing = rtype refactor then mergeInto existing refactor # merged
      else existing # mergeStep merged refactor)"

text \<open>
  \<open>Array.prototype.sort\<close> is stable; with the comparator \<open>b.level - a.level\<close> it orders by
  the key \<open>- level\<close>, ascending.
\<close>

definition mergeRefactorTypes :: "refactorTag list \<Rightarrow> refactorTag list" where
  "mergeRefactorTypes refactorTypes =
     sort_key (\<lambda>t. - int (level t)) (foldl mergeStep [] refactorTypes)"

definition classify :: "astDiffs \<Rightarrow> string \<Rightarrow> refactorTag list" where
  "classify ad language =
     (let ov = overall ad;
          fromAdded = (case ov of None \<Rightarrow> [] | Some ovr \<Rightarrow>
            (case addedNodes ovr of None \<Rightarrow> []
             | Some ns \<Rightarrow> concat (map (\<lambda>n. detectPatterns (OfNode n) CondAdded) ns)));
          fromRemoved = (case ov of None \<Rightarrow> [] | Some ovr \<Rightarrow>
            (case removedNodes ovr of None \<Rightarrow> []
             | Some ns \<Rightarrow> concat (map (\<lambda>n. detectPatterns (OfNode n) CondRemoved) ns)));
          fromModified = (case ov of None \<Rightarrow> [] | Some ovr \<Rightarrow>
            (case modifiedNodes ovr of None \<Rightarrow> []
             | Some cs \<Rightarrow> concat (map (\<lambda>c. detectPatterns (OfChange c) CondModified) cs)));
          fromFiles = (case files ad of None \<Rightarrow> []
             | Some fs \<Rightarrow> concat (map analyzeFileChanges fs))
      in mergeRefactorTypes (fromAdded @ fromRemoved @ fromModified @ fromFiles))"

section \<open>impactScorer.js: the impact scorer\<close>

text \<open>
  The metrics object. Its two lists of dependency names, filled from the evidence strings
  by regular expressions, are read by no part of the score and are left out.
\<close>

record metrics =
  totalLinesChanged :: nat
  filesModified :: nat
  cyclomaticComplexityDelta :: int
  testCoverageDelta :: int
  astNodesChanged :: nat
  newInfrastructureComponents :: nat
  architecturalChanges :: nat

definition levelThresholds :: "nat \<Rightarrow> real" where
  "levelThresholds k = (if k = 0 then 0 else if k = 1 then 20 else if k = 2 then 40
                        else if k = 3 then 60 else 80)"

definition infrastructureTypes :: "string list" where
  "infrastructureTypes =
     [''Service Extraction'', ''Cloud Migration'', ''Containerization'',
      ''Infrastructure as Code'', ''Event-driven'']"

definition complexTypes :: "string list" where
  "complexTypes =
     [''Service Extraction'', ''Cloud Migration'', ''Event-driven'', ''Infrastructure as Code'']"

definition simplifyingTypes :: "string list" where
  "simplifyingTypes = [''Extract Method'', ''Inline Method'', ''Rename Symbol'']"

definition calculateComplexityDelta :: "refactorTag list \<Rightarrow> int" where
  "calculateComplexityDelta refactorTypes =
     (let delta1 = foldl (\<lambda>delta refactor.
                      if rtype refactor \<in> set complexTypes
                      then delta + int (level refactor) * 2
                      else delta + int (level refactor)) 0 refactorTypes;
          delta2 = foldl (\<lambda>delta refactor.
                      if rtype refactor \<in> set simplifyingTypes
                      then delta - int (level refactor)
                      else delta) delta1 refactorTypes
      in max delta2 (- 10))"

definition calculateTestCoverageDelta :: "refactorTag list \<Rightarrow> int" where
  "calculateTestCoverageDelta refactorTypes =
     (let delta = foldl (\<lambda>delta refactor.
                     if rtype refactor = ''Testing'' then delta + int (level refactor) * 10
                     else if level refactor \<ge> 3 then delta - 5
                     else delta) 0 refactorTypes
      in max (min delta 50) (- 50))"

definition calculateMetrics :: "astDiffs \<Rightarrow> refactorTag list \<Rightarrow> string \<Rightarrow> metrics" where
  "calculateMetrics ad refactorTypes language =
     \<lparr>totalLinesChanged =
        (case overall ad of
           None \<Rightarrow> 0
         | Some ov \<Rightarrow> linesAdded ov + linesRemoved ov
                       + (case linesModified ov of None \<Rightarrow> 0 | Some n \<Rightarrow> n)),
      filesModified = (case files ad of None \<Rightarrow> 0 | Some fs \<Rightarrow> length fs),
      cyclomaticComplexityDelta = calculateComplexityDelta refactorTypes,
      testCoverageDelta = calculateTestCoverageDelta refactorTypes,
      astNodesChanged =
        (case overall ad of
           None \<Rightarrow> 0
         | Some ov \<Rightarrow> nodesAdded ov + nodesRemoved ov + nodesModified ov),
      newInfrastructureComponents =
        length (filter (\<lambda>refactor. rtype refactor \<in> set infrastructureTypes) refactorTypes),
      architecturalChanges = length (filter (\<lambda>refactor. level refactor \<ge> 4) refactorTypes)\<rparr>"

definition normalizeLinesChanged :: "real \<Rightarrow> real" where
  "normalizeLinesChanged lines =
     (if lines = 0 then 0
      else min (100 / (1 + exp (- (lines - 200) / 100))) 100)"

definition normalizeASTNodes :: "real \<Rightarrow> real" where
  "normalizeASTNodes nodes =
     (if nodes = 0 then 0
      else min (100 / (1 + exp (- (nodes - 50) / 25))) 100)"

definition normalizeInfrastructure :: "real \<Rightarrow> real" where
  "normalizeInfrastructure components = min (components * 20) 100"

definition normalizeTestCoverage :: "real \<Rightarrow> real" where
  "normalizeTestCoverage delta = min (max ((delta + 50) * 2) 0) 100"

definition normalizeComplexity :: "real \<Rightarrow> real" where
  "normalizeComplexity delta = min (max ((10 - delta) * 5) 0) 100"

text \<open>\<open>Math.round\<close> rounds to the nearest integer, a half upwards.\<close>

definition mathRound :: "real \<Rightarrow> real" where
  "mathRound x = of_int \<lfloor>x + 1 / 2\<rfloor>"

definition weightedSum :: "metrics \<Rightarrow> real" where
  "weightedSum m =
     normalizeLinesChanged (real (totalLinesChanged m)) * (30 / 100)
     + normalizeASTNodes (real (astNodesChanged m)) * (25 / 100)
     + normalizeInfrastructure (real (newInfrastructureComponents m)) * (20 / 100)
     + normalizeTestCoverage (of_int (testCoverageDelta m)) * (15 / 100)
     + normalizeComplexity (of_int (cyclomaticComplexityDelta m)) * (10 / 100)"

definition calculateOverallScore :: "metrics \<Rightarrow> real" where
  "calculateOverallScore m = mathRound (min (max (weightedSum m) 0) 100)"

definition determineLevel :: "real \<Rightarrow> nat" where
  "determineLevel score =
     (if score \<ge> levelThresholds 4 then 4
      else if score \<ge> levelThresholds 3 then 3
      else if score \<ge> levelThresholds 2 then 2
      else if score \<ge> levelThresholds 1 then 1
      else 0)"

record impact =
  overallScore :: real
  impactLevel :: nat
  detailed :: metrics

definition calculate :: "astDiffs \<Rightarrow> refactorTag list \<Rightarrow> string \<Rightarrow> impact" where
  "calculate ad refactorTypes language =
     (let m = calculateMetrics ad refactorTypes language;
          score = calculateOverallScore m
      in \<lparr>overallScore = score, impactLevel = determineLevel score, detailed = m\<rparr>)"

section \<open>securityScanner.js: the risk scanner\<close>

text \<open>
  The three tables hold regular expressions. The expression engine is a parameter: a
  regular expression is named by its table, its category and its position in the
  category's \<open>patterns\<close> array, and \<open>rmatch r text\<close> is the number of matches
  \<open>text.match(r)\<close> returns (every expression has the \<open>g\<close> flag), \<open>0\<close> when it returns
  \<open>null\<close>. Each table entry below gives the category, the length of its \<open>patterns\<close> array
  and the other fields of the entry.
\<close>

type_synonym regexId = "string \<times> string \<times> nat"

record riskFlag =
  f_type :: string
  severity :: string
  description :: string
  suggestion :: string

datatype scanSource = SourceString string | SourceObject "string option"

fun sourceTextOf :: "scanSource \<Rightarrow> string" where
  "sourceTextOf (SourceString s) = s"
| "sourceTextOf (SourceObject t) = (case t of None \<Rightarrow> [] | Some x \<Rightarrow> x)"

definition securityPatterns :: "(string \<times> nat \<times> string) list" where
  "securityPatterns =
     [(''secrets'', 10, ''high''), (''deprecatedCrypto'', 8, ''medium''),
      (''sqlInjection'', 4, ''high''), (''xss'', 5, ''medium''), (''pathTraversal'', 6, ''high'')]"

definition licensePatterns :: "(string \<times> nat \<times> string \<times> string) list" where
  "licensePatterns =
     [(''gpl'', 2, ''high'', ''GPL license may require source code disclosure''),
      (''agpl'', 2, ''critical'',
         ''AGPL license requires source code disclosure for network services''),
      (''copyleft'', 2, ''high'', ''Copyleft license may impose restrictions''),
      (''proprietary'', 3, ''medium'', ''Proprietary license may require commercial agreement'')]"

definition compatibilityPatterns :: "(string \<times> nat \<times> string) list" where
  "compatibilityPatterns =
     [(''deprecatedAPIs'', 5, ''medium''), (''browserCompatibility'', 5, ''low''),
      (''nodeVersion'', 3, ''low'')]"

definition occurrences :: "nat \<Rightarrow> string" where
  "occurrences matchCount = '' ('' @ showNat matchCount @ '' occurrences)''"

definition generateSecurityDescription :: "string \<Rightarrow> nat \<Rightarrow> string" where
  "generateSecurityDescription category matchCount =
     (if category = ''secrets'' then ''Potential secret exposure detected''
      else if category = ''deprecatedCrypto'' then ''Deprecated cryptographic functions found''
      else if category = ''sqlInjection'' then ''Potential SQL injection vulnerability''
      else if category = ''xss'' then ''Potential XSS vulnerability''
      else if category = ''pathTraversal'' then ''Potential path traversal vulnerability''
      else ''Security issue detected'') @ occurrences matchCount"

definition generateSecuritySuggestion :: "string \<Rightarrow> string" where
  "generateSecuritySuggestion category =
     (if category = ''secrets''
        then ''Use environment variables or secure configuration management for secrets''
      else if category = ''deprecatedCrypto''
        then ''Replace with modern cryptographic functions (SHA-256, AES-256)''
      else if category = ''sqlInjection''
        then ''Use parameterized queries or prepared statements''
      else if category = ''xss''
        then ''Sanitize user input and use Content Security Policy''
      else if category = ''pathTraversal''
        then ''Validate and sanitize file paths, use path.join() or equivalent''
      else ''Review security best practices for this code'')"

definition generateCompatibilityDescription :: "string \<Rightarrow> nat \<Rightarrow> string" where
  "generateCompatibilityDescription category matchCount =
     (if category = ''deprecatedAPIs'' then ''Deprecated API usage found''
      else if category = ''browserCompatibility'' then ''Browser compatibility issues''
      else if category = ''nodeVersion'' then ''Node.js version dependencies''
      else ''Compatibility issue detected'') @ occurrences matchCount"

definition generateCompatibilitySuggestion :: "string \<Rightarrow> string" where
  "generateCompatibilitySuggestion category =
     (if category = ''deprecatedAPIs''
        then ''Update to modern APIs and remove deprecated usage''
      else if category = ''browserCompatibility''
        then ''Test across target browsers and update polyfills''
      else if category = ''nodeVersion''
        then ''Specify minimum Node.js version in package.json''
      else ''Review compatibility requirements'')"

text \<open>The inner \<open>forEach\<close> over the expressions of one category.\<close>

definition perPattern :: "(regexId \<Rightarrow> string \<Rightarrow> nat) \<Rightarrow> string \<Rightarrow> string \<Rightarrow> nat \<Rightarrow> string
     \<Rightarrow> (nat \<Rightarrow> riskFlag) \<Rightarrow> riskFlag list" where
  "perPattern rmatch table category n sourceText mk =
     concat (map (\<lambda>k. let matches = rmatch (table, category, k) sourceText
                       in if matches > 0 then [mk matches] else [])
                 [0 ..< n])"

definition scanSecurity :: "(regexId \<Rightarrow> string \<Rightarrow> nat) \<Rightarrow> scanSource \<Rightarrow> riskFlag list" where
  "scanSecurity rmatch source =
     concat (map (\<lambda>(category, n, sev).
               perPattern rmatch ''security'' category n (sourceTextOf source)
                 (\<lambda>matches. \<lparr>f_type = ''security'', severity = sev,
                               description = generateSecurityDescription category matches,
                               suggestion = generateSecuritySuggestion category\<rparr>))
             securityPatterns)"

definition scanLicenses :: "(regexId \<Rightarrow> string \<Rightarrow> nat) \<Rightarrow> scanSource \<Rightarrow> riskFlag list" where
  "scanLicenses rmatch source =
     concat (map (\<lambda>(license, n, sev, descr).
               perPattern rmatch ''license'' license n (sourceTextOf source)
                 (\<lambda>matches. \<lparr>f_type = ''license'', severity = sev, description = descr,
                               suggestion =
                                 ''Review license compatibility with your project requirements''\<rparr>))
             licensePatterns)"

definition scanCompatibility :: "(regexId \<Rightarrow> string \<Rightarrow> nat) \<Rightarrow> scanSource \<Rightarrow> riskFlag list" where
  "scanCompatibility rmatch source =
     concat (map (\<lambda>(category, n, sev).
               perPattern rmatch ''compatibility'' category n (sourceTextOf source)
                 (\<lambda>matches. \<lparr>f_type = ''compatibility'', severity = sev,
                               description = generateCompatibilityDescription category matches,
                               suggestion = generateCompatibilitySuggestion category\<rparr>))
             compatibilityPatterns)"

definition flagKey :: "riskFlag \<Rightarrow> string" where
  "flagKey flag = f_type flag @ ''-'' @ severity flag @ ''-'' @ description flag"

text \<open>\<open>deduplicateFlags\<close>: the filter with its set \<open>seen\<close> of keys.\<close>

fun dedupFrom :: "string list \<Rightarrow> riskFlag list \<Rightarrow> riskFlag list" where
  "dedupFrom seen [] = []"
| "dedupFrom seen (flag # flags) =
     (if flagKey flag \<in> set seen then dedupFrom seen flags
      else flag # dedupFrom (flagKey flag # seen) flags)"

definition deduplicateFlags :: "riskFlag list \<Rightarrow> riskFlag list" where
  "deduplicateFlags flags = dedupFrom [] flags"

definition scan :: "(regexId \<Rightarrow> string \<Rightarrow> nat) \<Rightarrow> scanSource \<Rightarrow> string \<Rightarrow> bool \<Rightarrow> riskFlag list" where
  "scan rmatch source language includeSecurityScan =
     deduplicateFlags
       (if includeSecurityScan
        then scanSecurity rmatch source @ scanLicenses rmatch source
               @ scanCompatibility rmatch source
        else [])"

section \<open>Vocabulary of the claims\<close>




text \<open>
  The Levenshtein distance of the claims, by its recurrence on prefixes:
  \<open>prefixDistance a b i j\<close> is the distance between the first \<open>i\<close> characters of \<open>a\<close> and
  the first \<open>j\<close> characters of \<open>b\<close>; dropping or inserting a character costs 1, replacing
  one costs 1 unless the two characters agree.
\<close>

fun prefixDistance :: "string \<Rightarrow> string \<Rightarrow> nat \<Rightarrow> nat \<Rightarrow> nat" where
  "prefixDistance a b 0 j = j"
| "prefixDistance a b (Suc i) 0 = Suc i"
| "prefixDistance a b (Suc i) (Suc j) =
     min (min (prefixDistance a b i (Suc j) + 1) (prefixDistance a b (Suc i) j + 1))
         (prefixDistance a b i j + (if a ! i = b ! j then 0 else 1))"

definition levenshtein :: "string \<Rightarrow> string \<Rightarrow> nat" where
  "levenshtein a b = prefixDistance a b (length a) (length b)"

text \<open>
  The three similarities and their weighted sum, in the words of the specification: the
  name similarity is 1 for identical names and otherwise 1 minus the distance divided by
  the longer length; the type similarity is 1 for equal kinds and one half otherwise; the
  parameter similarity is the size of the intersection over the longer length, 1 when
  both lists are empty and 0 when exactly one is.
\<close>

definition nameSimilarity :: "string \<Rightarrow> string \<Rightarrow> real" where
  "nameSimilarity name1 name2 =
     (if name1 = name2 then 1
      else 1 - real (levenshtein name1 name2) / real (max (length name1) (length name2)))"

definition typeSimilarity :: "string \<Rightarrow> string \<Rightarrow> real" where
  "typeSimilarity kind1 kind2 = (if kind1 = kind2 then 1 else 1 / 2)"

definition parameterSimilarity :: "string list \<Rightarrow> string list \<Rightarrow> real" where
  "parameterSimilarity params1 params2 =
     (if params1 = [] \<and> params2 = [] then 1
      else if params1 = [] \<or> params2 = [] then 0
      else real (length (filter (\<lambda>p. p \<in> set params2) params1))
             / real (max (length params1) (length params2)))"

definition weightedSimilarity :: "node \<Rightarrow> node \<Rightarrow> real" where
  "weightedSimilarity node1 node2 =
     5 / 10 * nameSimilarity (nameOrEmpty node1) (nameOrEmpty node2)
     + 3 / 10 * typeSimilarity (ntype node1) (ntype node2)
     + 2 / 10 * parameterSimilarity (md_parameters (nmeta node1)) (md_parameters (nmeta node2))"

text \<open>The types of the signature library that have a rule with a text.\<close>

definition textRuleTypes :: "string list" where
  "textRuleTypes =
     map p_type (filter (\<lambda>p. list_ex (\<lambda>r. truthy (r_text r)) (p_rules p)) patterns)"

section \<open>Example inputs\<close>

text \<open>
  Normalized trees as \<open>normalizeAST\<close> builds them from the tree-sitter tree of a
  JavaScript source. Only a \<open>function_declaration\<close> gets a name. \<open>extractParameters\<close>
  keeps the children of the parameter list whose kind contains \<open>parameter\<close>; the
  parameters of a JavaScript function are \<open>identifier\<close> nodes, so the parameter list of
  the metadata is empty.
\<close>

definition noMeta :: metadata where
  "noMeta = \<lparr>md_name = None, md_parameters = [], md_imports = []\<rparr>"

definition leaf :: "string \<Rightarrow> string \<Rightarrow> node" where
  "leaf kind tx = Node kind tx noMeta []"

text \<open>The tree of \<open>function NAME(a,b){return a+b;}\<close>.\<close>

definition jsFunction :: "string \<Rightarrow> node" where
  "jsFunction nm =
     Node ''function_declaration'' (''function '' @ nm @ ''(a,b){return a+b;}'')
       \<lparr>md_name = Some nm, md_parameters = [], md_imports = []\<rparr>
       [leaf ''function'' ''function'',
        leaf ''identifier'' nm,
        Node ''formal_parameters'' ''(a,b)'' noMeta
          [leaf ''('' ''('', leaf ''identifier'' ''a'', leaf '','' '','',
           leaf ''identifier'' ''b'', leaf '')'' '')''],
        Node ''statement_block'' ''{return a+b;}'' noMeta
          [leaf ''{'' ''{'',
           Node ''return_statement'' ''return a+b;'' noMeta
             [leaf ''return'' ''return'',
              Node ''binary_expression'' ''a+b'' noMeta
                [leaf ''identifier'' ''a'', leaf ''+'' ''+'', leaf ''identifier'' ''b''],
              leaf '';'' '';''],
           leaf ''}'' ''}'']]"

text \<open>A program of such functions, one per line.\<close>

definition jsProgram :: "node list \<Rightarrow> node" where
  "jsProgram fs = Node ''program'' (joinWith [CHR 0x0A] (map ntext fs)) noMeta fs"

text \<open>Two legacy functions \<open>getUser\<close>, \<open>getUsers\<close>; one refactored function \<open>getUsers\<close>.\<close>

definition exLegacyUsers :: node where
  "exLegacyUsers = jsProgram [jsFunction ''getUser'', jsFunction ''getUsers'']"

definition exRefactoredUsers :: node where
  "exRefactoredUsers = jsProgram [jsFunction ''getUsers'']"

definition exHintsUsers :: "(string \<times> string) list" where
  "exHintsUsers = [(''getUser'', ''getUsers''), (''getUsers'', ''getUsers'')]"

text \<open>A function \<open>sub\<close> appears beside \<open>add\<close>.\<close>

definition exAdd :: node where
  "exAdd = jsProgram [jsFunction ''add'']"

definition exAddSub :: node where
  "exAddSub = jsProgram [jsFunction ''add'', jsFunction ''sub'']"

text \<open>\<open>computeTotal\<close> is renamed to \<open>calculateTotal\<close>, the body unchanged.\<close>

definition exCompute :: node where
  "exCompute = jsProgram [jsFunction ''computeTotal'']"

definition exCalculate :: node where
  "exCalculate = jsProgram [jsFunction ''calculateTotal'']"

text \<open>
  What the \<open>diff\<close> package returns for two equal one-line texts: \<open>diffLines\<close> one part
  that is neither added nor removed, \<open>createPatch\<close> the header of the patch and no hunk.
\<close>

definition exDiffLinesUnchanged :: "string \<Rightarrow> string \<Rightarrow> lineChange list" where
  "exDiffLinesUnchanged oldStr newStr = [\<lparr>lc_added = False, lc_removed = False, lc_count = 1\<rparr>]"

definition exPatchUnchanged :: "string \<Rightarrow> string \<Rightarrow> string \<Rightarrow> string" where
  "exPatchUnchanged fileName oldStr newStr =
     ''Index: '' @ fileName @ [CHR 0x0A]
     @ replicate 67 CHR ''='' @ [CHR 0x0A]
     @ ''--- '' @ fileName @ [CHR 0x0A]
     @ ''+++ '' @ fileName @ [CHR 0x0A]"

definition exUnchangedDiffs :: astDiffs where
  "exUnchangedDiffs =
     computeDiffs exDiffLinesUnchanged exPatchUnchanged exAdd exAdd (mapElements exAdd exAdd [])"

text \<open>
  A class and a method of the same name (their children are left out: the similarity
  reads the kind, the name and the parameters only).
\<close>

definition exClassTotal :: node where
  "exClassTotal =
     Node ''class_declaration'' ''class Total { }''
       \<lparr>md_name = Some ''Total'', md_parameters = [], md_imports = []\<rparr> []"

definition exMethodTotal :: node where
  "exMethodTotal =
     Node ''method_declaration'' ''int Total() { return 0; }''
       \<lparr>md_name = Some ''Total'', md_parameters = [], md_imports = []\<rparr> []"





section \<open>Properties of the similarity\<close>

text \<open>The matrix loop of \<open>levenshteinDistance\<close> computes the recurrence.\<close>

lemma prefixDistance_0_right: "prefixDistance a b i 0 = i"
  by (cases i) simp_all

lemma prefixDistance_step_left: "prefixDistance a b (Suc i) j \<le> prefixDistance a b i j + 1"
  by (cases j) (simp_all add: prefixDistance_0_right)

lemma prefixDistance_step_right: "prefixDistance a b i (Suc j) \<le> prefixDistance a b i j + 1"
  by (cases i) simp_all

lemma prefixDistance_back_left: "prefixDistance a b i j \<le> prefixDistance a b (Suc i) j + 1"
proof (induction j arbitrary: i)
  case 0
  then show ?case by (simp add: prefixDistance_0_right)
next
  case (Suc j)
  have "prefixDistance a b i (Suc j) \<le> prefixDistance a b i j + 1"
    by (rule prefixDistance_step_right)
  moreover have "prefixDistance a b i j \<le> prefixDistance a b (Suc i) j + 1"
    by (rule Suc.IH)
  ultimately show ?case by simp
qed

lemma prefixDistance_back_right: "prefixDistance a b i j \<le> prefixDistance a b i (Suc j) + 1"
proof (induction i arbitrary: j)
  case 0
  then show ?case by simp
next
  case (Suc i)
  have "prefixDistance a b (Suc i) j \<le> prefixDistance a b i j + 1"
    by (rule prefixDistance_step_left)
  moreover have "prefixDistance a b i j \<le> prefixDistance a b i (Suc j) + 1"
    by (rule Suc.IH)
  ultimately show ?case by simp
qed

text \<open>The cell the inner loop writes is the cell of the recurrence.\<close>

lemma cell_eq:
  "(if b ! i = a ! k then prefixDistance a b k i
    else min (min (prefixDistance a b k i + 1) (prefixDistance a b k (Suc i) + 1))
             (prefixDistance a b (Suc k) i + 1))
   = prefixDistance a b (Suc k) (Suc i)"
proof (cases "b ! i = a ! k")
  case True
  have "prefixDistance a b k i \<le> prefixDistance a b k (Suc i) + 1"
    by (rule prefixDistance_back_right)
  moreover have "prefixDistance a b k i \<le> prefixDistance a b (Suc k) i + 1"
    by (rule prefixDistance_back_left)
  ultimately show ?thesis using True by simp
next
  case False
  then have "a ! k \<noteq> b ! i" by auto
  then show ?thesis using False by (simp add: min.commute min.left_commute)
qed

lemma levRow_eq:
  "k \<le> n \<Longrightarrow>
   levRow (b ! i) (prefixDistance a b k (Suc i))
     (map (\<lambda>j. (a ! j, prefixDistance a b j i, prefixDistance a b (Suc j) i)) [k ..< n])
   = map (\<lambda>j. prefixDistance a b (Suc j) (Suc i)) [k ..< n]"
proof (induction "n - k" arbitrary: k)
  case 0
  then show ?case by simp
next
  case (Suc d)
  then have lt: "k < n" and d: "d = n - Suc k" and le: "Suc k \<le> n" by simp_all
  have u: "[k ..< n] = k # [Suc k ..< n]"
    using lt by (simp add: upt_conv_Cons)
  show ?case
    unfolding u using Suc.hyps(1) [OF d le] cell_eq [of b i a k]
    by (simp add: Let_def)
qed

lemma zip_row:
  "zip a (zip (map (\<lambda>j. f j) [0 ..< Suc (length a)]) (tl (map (\<lambda>j. f j) [0 ..< Suc (length a)])))
   = map (\<lambda>j. (a ! j, f j, f (Suc j))) [0 ..< length a]"
  by (rule nth_equalityI) (simp_all add: nth_tl del: upt_Suc)

lemma levNextRow_eq:
  "levNextRow a (map (\<lambda>j. prefixDistance a b j i) [0 ..< Suc (length a)]) (Suc i) (b ! i)
   = map (\<lambda>j. prefixDistance a b j (Suc i)) [0 ..< Suc (length a)]"
proof -
  have "levRow (b ! i) (prefixDistance a b 0 (Suc i))
     (map (\<lambda>j. (a ! j, prefixDistance a b j i, prefixDistance a b (Suc j) i)) [0 ..< length a])
   = map (\<lambda>j. prefixDistance a b (Suc j) (Suc i)) [0 ..< length a]"
    by (rule levRow_eq) simp
  moreover have "map (\<lambda>j. prefixDistance a b j (Suc i)) [0 ..< Suc (length a)]
      = Suc i # map (\<lambda>j. prefixDistance a b (Suc j) (Suc i)) [0 ..< length a]"
    by (simp add: upt_conv_Cons map_Suc_upt [symmetric] del: upt_Suc)
  ultimately show ?thesis
    unfolding levNextRow_def zip_row by simp
qed

lemma levRows_eq:
  "i \<le> length b \<Longrightarrow>
   levRows a (map (\<lambda>j. prefixDistance a b j i) [0 ..< Suc (length a)]) (Suc i) (drop i b)
   = map (\<lambda>j. prefixDistance a b j (length b)) [0 ..< Suc (length a)]"
proof (induction "length b - i" arbitrary: i)
  case 0
  then show ?case by simp
next
  case (Suc d)
  then have lt: "i < length b" and d: "d = length b - Suc i" and le: "Suc i \<le> length b"
    by simp_all
  have dr: "drop i b = b ! i # drop (Suc i) b"
    using lt by (simp add: Cons_nth_drop_Suc)
  show ?case
    unfolding dr levRows.simps levNextRow_eq by (rule Suc.hyps(1) [OF d le])
qed

lemma levenshteinDistance_refines: "levenshteinDistance a b = levenshtein a b"
proof -
  have r0: "[0 ..< Suc (length a)] = map (\<lambda>j. prefixDistance a b j 0) [0 ..< Suc (length a)]"
    by (rule nth_equalityI) (simp_all add: prefixDistance_0_right del: upt_Suc)
  have "levRows a (map (\<lambda>j. prefixDistance a b j 0) [0 ..< Suc (length a)]) (Suc 0) (drop 0 b)
      = map (\<lambda>j. prefixDistance a b j (length b)) [0 ..< Suc (length a)]"
    by (rule levRows_eq) simp
  then have "levRows a [0 ..< Suc (length a)] 1 b
      = map (\<lambda>j. prefixDistance a b j (length b)) [0 ..< Suc (length a)]"
    using r0 by simp
  then show ?thesis
    by (simp add: levenshteinDistance_def levenshtein_def)
qed

lemma prefixDistance_zero:
  "i \<le> length a \<Longrightarrow> j \<le> length b \<Longrightarrow> prefixDistance a b i j = 0 \<Longrightarrow> i = j \<and> take i a = take j b"
proof (induction a b i j rule: prefixDistance.induct)
  case (1 a b j)
  then show ?case by simp
next
  case (2 a b i)
  then show ?case by simp
next
  case (3 a b i j)
  from "3.prems"(3) have z: "prefixDistance a b i j = 0" and eq: "a ! i = b ! j"
    by (auto simp: min_def split: if_splits)
  from "3.prems" have "i \<le> length a" "j \<le> length b" by simp_all
  from "3.IH"(3) [OF this z] have ij: "i = j" and tk: "take i a = take j b" by blast+
  from "3.prems" have "i < length a" "j < length b" by simp_all
  then have "take (Suc i) a = take i a @ [a ! i]" "take (Suc j) b = take j b @ [b ! j]"
    by (simp_all add: take_Suc_conv_app_nth)
  with ij tk eq show ?case by simp
qed

lemma levenshtein_pos: "a \<noteq> b \<Longrightarrow> 0 < levenshtein a b"
proof (rule ccontr)
  assume ne: "a \<noteq> b" and "\<not> 0 < levenshtein a b"
  then have "prefixDistance a b (length a) (length b) = 0"
    by (simp add: levenshtein_def)
  from prefixDistance_zero [OF _ _ this] have "a = b" by simp
  with ne show False by simp
qed

lemma levenshtein_le_max: "levenshtein a b \<le> max (length a) (length b)"
proof -
  have "prefixDistance a b i j \<le> max i j" for i j
    by (induction a b i j rule: prefixDistance.induct) (auto simp: min_def max_def)
  then show ?thesis by (simp add: levenshtein_def)
qed

lemma calculateSimilarity_same_name:
  "nameOrEmpty node1 = nameOrEmpty node2 \<Longrightarrow> calculateSimilarity node1 node2 = 1"
  by (simp add: calculateSimilarity_def)

lemma calculateSimilarity_other_name:
  assumes "nameOrEmpty node1 \<noteq> nameOrEmpty node2"
  shows "calculateSimilarity node1 node2 = weightedSimilarity node1 node2"
proof -
  from assms have "nameOrEmpty node1 \<noteq> [] \<or> nameOrEmpty node2 \<noteq> []"
    by auto
  then have "0 < max (length (nameOrEmpty node1)) (length (nameOrEmpty node2))"
    by (auto simp: max_def)
  with assms show ?thesis
    by (simp add: calculateSimilarity_def weightedSimilarity_def nameSimilarity_def
        typeSimilarity_def parameterSimilarity_def calculateArraySimilarity_def
        levenshteinDistance_refines Let_def)
qed

text \<open>
  Claim C5, as amended. For two named nodes with different names, \<open>calculateSimilarity\<close>
  is the weighted sum \<open>0.5 * nameSimilarity + 0.3 * typeSimilarity + 0.2 *
  parameterSimilarity\<close>, the name similarity being 1 minus the Levenshtein distance over
  the longer length. For two nodes of the same name it is 1, whatever their kinds and
  parameters.
\<close>

theorem calculateSimilarity_weighted:
  assumes "md_name (nmeta node1) = Some name1" and "md_name (nmeta node2) = Some name2"
  shows "calculateSimilarity node1 node2
           = (if name1 = name2 then 1 else weightedSimilarity node1 node2)"
proof -
  from assms have "nameOrEmpty node1 = name1" "nameOrEmpty node2 = name2"
    by (simp_all add: nameOrEmpty_def)
  then show ?thesis
    using calculateSimilarity_same_name [of node1 node2]
      calculateSimilarity_other_name [of node1 node2]
    by simp
qed

theorem calculateSimilarity_weighted_witness:
  "md_name (nmeta (jsFunction ''computeTotal'')) = Some ''computeTotal''
   \<and> md_name (nmeta (jsFunction ''calculateTotal'')) = Some ''calculateTotal''
   \<and> ''computeTotal'' \<noteq> ''calculateTotal''
   \<and> calculateSimilarity (jsFunction ''computeTotal'') (jsFunction ''calculateTotal'')
        = weightedSimilarity (jsFunction ''computeTotal'') (jsFunction ''calculateTotal'')
   \<and> weightedSimilarity (jsFunction ''computeTotal'') (jsFunction ''calculateTotal'') = 23 / 28"
proof -
  have n1: "md_name (nmeta (jsFunction ''computeTotal'')) = Some ''computeTotal''"
    and n2: "md_name (nmeta (jsFunction ''calculateTotal'')) = Some ''calculateTotal''"
    by (simp_all add: jsFunction_def)
  have ne: "''computeTotal'' \<noteq> ''calculateTotal''" by simp
  have v: "calculateSimilarity (jsFunction ''computeTotal'') (jsFunction ''calculateTotal'') = 23 / 28"
    by code_simp
  from calculateSimilarity_weighted [OF n1 n2] ne
  have "calculateSimilarity (jsFunction ''computeTotal'') (jsFunction ''calculateTotal'')
        = weightedSimilarity (jsFunction ''computeTotal'') (jsFunction ''calculateTotal'')"
    by simp
  with n1 n2 ne v show ?thesis by simp
qed

text \<open>
  Claim C5, as stated, fails: a class and a method both named \<open>Total\<close> have different
  kinds, their weighted sum is \<open>17/20\<close>, and \<open>calculateSimilarity\<close> returns 1.
\<close>

theorem calculateSimilarity_weighted_counterexample:
  "hasName exClassTotal \<and> hasName exMethodTotal
   \<and> nameOrEmpty exClassTotal = nameOrEmpty exMethodTotal
   \<and> ntype exClassTotal \<noteq> ntype exMethodTotal
   \<and> calculateSimilarity exClassTotal exMethodTotal = 1
   \<and> weightedSimilarity exClassTotal exMethodTotal = 17 / 20"
  by (simp add: exClassTotal_def exMethodTotal_def hasName_def nameOrEmpty_def
      calculateSimilarity_def weightedSimilarity_def nameSimilarity_def typeSimilarity_def
      parameterSimilarity_def)

section \<open>Properties of the mapping\<close>

lemma mapKeys_mapSet:
  "set (mapKeys (mapSet m k v)) = insert (fst k) (set (mapKeys m))"
  by (induction m) (auto simp: mapKeys_def)

lemma distinct_mapSet:
  "distinct (mapKeys m) \<Longrightarrow> distinct (mapKeys (mapSet m k v))"
proof (induction m)
  case Nil
  then show ?case by (simp add: mapKeys_def)
next
  case (Cons e m)
  have keys: "set (mapKeys (mapSet m k v)) = insert (fst k) (set (mapKeys m))"
    by (rule mapKeys_mapSet)
  from Cons.prems have fresh: "fst (fst e) \<notin> set (mapKeys m)" and rest: "distinct (mapKeys m)"
    by (simp_all add: mapKeys_def)
  show ?case
  proof (cases "fst (fst e) = fst k")
    case True
    then have "mapKeys (mapSet (e # m) k v) = fst (fst e) # mapKeys m"
      by (simp add: mapKeys_def)
    with fresh rest show ?thesis by simp
  next
    case False
    then have "mapKeys (mapSet (e # m) k v) = fst (fst e) # mapKeys (mapSet m k v)"
      by (simp add: mapKeys_def)
    moreover have "fst (fst e) \<notin> set (mapKeys (mapSet m k v))"
      using keys fresh False by simp
    ultimately show ?thesis using Cons.IH [OF rest] by simp
  qed
qed

lemma distinct_applyHints:
  "distinct (mapKeys m) \<Longrightarrow> distinct (mapKeys (applyHints legacyAST refactoredAST hints m))"
proof (induction hints arbitrary: m)
  case Nil
  then show ?case by simp
next
  case (Cons h hints)
  obtain legacyName refactoredName where h: "h = (legacyName, refactoredName)"
    by (cases h)
  show ?case
    unfolding h applyHints.simps
    by (rule Cons.IH) (auto split: option.splits intro: distinct_mapSet Cons.prems)
qed

lemma distinct_autoMap:
  "distinct (mapKeys m) \<Longrightarrow> distinct (mapKeys (autoMap legacyNodes refactoredNodes m))"
proof (induction legacyNodes arbitrary: m)
  case Nil
  then show ?case by simp
next
  case (Cons legacyNode legacyNodes)
  show ?case
    unfolding autoMap.simps
    by (rule Cons.IH) (auto split: option.splits intro: distinct_mapSet Cons.prems)
qed

text \<open>
  Claim C1, as amended. The mapping returned by \<open>mapElements\<close> is a partial function on
  the legacy nodes: no legacy node is the key of two entries. It is not injective: nothing
  in \<open>mapElements\<close> looks at the refactored nodes already taken.
\<close>

theorem mapElements_functional:
  "distinct (mapKeys (mapElements legacyAST refactoredAST mapHints))"
  unfolding mapElements_def
  by (intro distinct_autoMap distinct_applyHints) (simp add: mapKeys_def)

text \<open>
  Claim C1, as stated, fails both ways. Without hints, \<open>getUser\<close> and \<open>getUsers\<close> both
  find \<open>getUsers\<close> as their best match (similarities \<open>15/16\<close> and \<open>1\<close>); with the hints
  \<open>getUser \<mapsto> getUsers\<close> and \<open>getUsers \<mapsto> getUsers\<close>, both entries name the same
  refactored node.
\<close>

theorem mapElements_injective_counterexample:
  "mapKeys (mapElements exLegacyUsers exRefactoredUsers []) = [[0], [1]]
   \<and> mapTargets (mapElements exLegacyUsers exRefactoredUsers []) = [[0], [0]]
   \<and> mapKeys (mapElements exLegacyUsers exRefactoredUsers exHintsUsers) = [[0], [1]]
   \<and> mapTargets (mapElements exLegacyUsers exRefactoredUsers exHintsUsers) = [[0], [0]]"
  by code_simp

section \<open>Properties of the level\<close>

lemma determineLevel_values:
  "map determineLevel [0, 19, 20, 39, 40, 59, 60, 79, 80, 100] = [0, 0, 1, 1, 2, 2, 3, 3, 4, 4]"
  by (simp add: determineLevel_def levelThresholds_def)

lemma determineLevel_mono: "s1 \<le> s2 \<Longrightarrow> determineLevel s1 \<le> determineLevel s2"
  unfolding determineLevel_def levelThresholds_def by (simp split: if_splits)

lemma determineLevel_bracket:
  "0 \<le> s \<Longrightarrow> levelThresholds (determineLevel s) \<le> s
          \<and> (determineLevel s < 4 \<longrightarrow> s < levelThresholds (Suc (determineLevel s)))"
  unfolding determineLevel_def levelThresholds_def by (simp split: if_splits)

text \<open>
  Claim C6. \<open>determineLevel\<close> is a non-decreasing step function of the score: on the
  scores 0, 19, 20, 39, 40, 59, 60, 79, 80, 100 it gives 0, 0, 1, 1, 2, 2, 3, 3, 4, 4; a
  larger score never gets a smaller level; and the level of a non-negative score is the
  step whose threshold (0, 20, 40, 60, 80) is the largest one not above the score.
\<close>

theorem determineLevel_step_monotone:
  "map determineLevel [0, 19, 20, 39, 40, 59, 60, 79, 80, 100] = [0, 0, 1, 1, 2, 2, 3, 3, 4, 4]
   \<and> (\<forall>s1 s2. s1 \<le> s2 \<longrightarrow> determineLevel s1 \<le> determineLevel s2)
   \<and> (\<forall>s. 0 \<le> s \<longrightarrow> levelThresholds (determineLevel s) \<le> s
          \<and> (determineLevel s < 4 \<longrightarrow> s < levelThresholds (Suc (determineLevel s))))"
  using determineLevel_values determineLevel_mono determineLevel_bracket by blast

theorem determineLevel_step_monotone_witness:
  "(19::real) \<le> 20 \<and> determineLevel 19 \<le> determineLevel 20
   \<and> levelThresholds (determineLevel 20) \<le> 20 \<and> determineLevel 20 < 4
   \<and> 20 < levelThresholds (Suc (determineLevel 20))"
proof -
  have v: "determineLevel 20 = 1"
    by (simp add: determineLevel_def levelThresholds_def)
  have "(19::real) \<le> 20" by simp
  moreover from determineLevel_step_monotone this have "determineLevel 19 \<le> determineLevel 20"
    by blast
  moreover have "(0::real) \<le> 20" by simp
  with determineLevel_step_monotone
  have "levelThresholds (determineLevel 20) \<le> 20
          \<and> (determineLevel 20 < 4 \<longrightarrow> 20 < levelThresholds (Suc (determineLevel 20)))"
    by blast
  ultimately show ?thesis using v by simp
qed

section \<open>Properties of the normalizers\<close>

lemma logistic_pos: "0 < 100 / (1 + exp t)" for t :: real
  by (simp add: add_pos_pos)

lemma logistic_below: "100 / (1 + exp t) < 100" for t :: real
proof -
  have "0 < exp t" by simp
  then have "100 < 100 * (1 + exp t)" by simp
  moreover have "0 < 1 + exp t" by (simp add: add_pos_pos)
  ultimately show ?thesis by (simp add: divide_less_eq)
qed

text \<open>
  Claim C10. Both logistic normalizers return exactly 0 at 0, although their curves are
  positive there; at every positive input they return the value of the curve, capped at
  100 (a cap the curve, as a real number, never reaches).
\<close>

theorem normalizers_zero_special:
  "normalizeLinesChanged 0 = 0 \<and> normalizeASTNodes 0 = 0
   \<and> 0 < 100 / (1 + exp (- ((0::real) - 200) / 100))
   \<and> 0 < 100 / (1 + exp (- ((0::real) - 50) / 25))
   \<and> (\<forall>x. 0 < x \<longrightarrow>
         normalizeLinesChanged x = min (100 / (1 + exp (- (x - 200) / 100))) 100
         \<and> normalizeLinesChanged x = 100 / (1 + exp (- (x - 200) / 100))
         \<and> normalizeASTNodes x = min (100 / (1 + exp (- (x - 50) / 25))) 100
         \<and> normalizeASTNodes x = 100 / (1 + exp (- (x - 50) / 25)))"
proof -
  have m: "min (100 / (1 + exp t)) 100 = 100 / (1 + exp t)" for t :: real
    using logistic_below [of t] by simp
  have z: "normalizeLinesChanged 0 = 0" "normalizeASTNodes 0 = 0"
    by (simp_all add: normalizeLinesChanged_def normalizeASTNodes_def)
  have p: "normalizeLinesChanged x = min (100 / (1 + exp (- (x - 200) / 100))) 100"
          "normalizeASTNodes x = min (100 / (1 + exp (- (x - 50) / 25))) 100" if "0 < x" for x
    using that by (simp_all add: normalizeLinesChanged_def normalizeASTNodes_def)
  show ?thesis
    using z p m logistic_pos by metis
qed

theorem normalizers_zero_special_witness:
  "(0::real) < 200 \<and> normalizeLinesChanged 200 = 50 \<and> (0::real) < 50 \<and> normalizeASTNodes 50 = 50"
proof -
  have a: "(0::real) < 200" and b: "(0::real) < 50" by simp_all
  from normalizers_zero_special a
  have "normalizeLinesChanged 200 = 100 / (1 + exp (- (200 - 200) / 100))" by blast
  moreover from normalizers_zero_special b
  have "normalizeASTNodes 50 = 100 / (1 + exp (- (50 - 50) / 25))" by blast
  ultimately show ?thesis by simp
qed

section \<open>Properties of the risk scanner\<close>

lemma dedupFrom_unseen:
  "x \<in> set (dedupFrom seen flags) \<Longrightarrow> flagKey x \<notin> set seen"
proof (induction flags arbitrary: seen)
  case Nil
  then show ?case by simp
next
  case (Cons a flags)
  show ?case
  proof (cases "flagKey a \<in> set seen")
    case True
    with Cons show ?thesis by simp
  next
    case False
    with Cons.prems have "x = a \<or> x \<in> set (dedupFrom (flagKey a # seen) flags)" by simp
    then show ?thesis
    proof
      assume "x = a" with False show ?thesis by simp
    next
      assume "x \<in> set (dedupFrom (flagKey a # seen) flags)"
      from Cons.IH [OF this] show ?thesis by simp
    qed
  qed
qed

lemma dedupFrom_distinct:
  "distinct (map flagKey (dedupFrom seen flags))"
proof (induction flags arbitrary: seen)
  case Nil
  then show ?case by simp
next
  case (Cons a flags)
  show ?case
  proof (cases "flagKey a \<in> set seen")
    case True
    with Cons.IH show ?thesis by simp
  next
    case False
    have "flagKey a \<notin> flagKey ` set (dedupFrom (flagKey a # seen) flags)"
    proof
      assume "flagKey a \<in> flagKey ` set (dedupFrom (flagKey a # seen) flags)"
      then obtain x where x: "x \<in> set (dedupFrom (flagKey a # seen) flags)"
        and k: "flagKey a = flagKey x"
        by blast
      from dedupFrom_unseen [OF x] k show False by simp
    qed
    with False Cons.IH [of "flagKey a # seen"] show ?thesis by simp
  qed
qed

lemma distinct_map_coarser:
  assumes "distinct (map f xs)" and "\<And>x y. g x = g y \<Longrightarrow> f x = f y"
  shows "distinct (map g xs)"
proof -
  from assms(1) have "inj_on f (set xs)" and d: "distinct xs"
    by (simp_all add: distinct_map)
  then have "inj_on g (set xs)"
    using assms(2) unfolding inj_on_def by blast
  with d show ?thesis by (simp add: distinct_map)
qed

text \<open>
  Claim C8. With \<open>includeSecurityScan\<close> false, \<open>scan\<close> consults no regular expression of
  any of the three tables (the result does not depend on the matcher) and returns the
  empty list, for every source and language.
\<close>

theorem scan_disabled_empty:
  "scan rmatch source language False = []"
  by (simp add: scan_def deduplicateFlags_def)

text \<open>
  Claim C9. No two flags of a list returned by \<open>scan\<close> have the same kind, severity and
  description: the triples of the returned flags are pairwise different.
\<close>

theorem scan_flags_deduplicated:
  "distinct (map (\<lambda>flag. (f_type flag, severity flag, description flag))
       (scan rmatch source language includeSecurityScan))"
proof -
  have d: "distinct (map flagKey (scan rmatch source language includeSecurityScan))"
    unfolding scan_def deduplicateFlags_def by (rule dedupFrom_distinct)
  have k: "flagKey x = flagKey y"
    if "(f_type x, severity x, description x) = (f_type y, severity y, description y)" for x y
    using that by (simp add: flagKey_def)
  show ?thesis
    using distinct_map_coarser
      [of flagKey _ "\<lambda>flag. (f_type flag, severity flag, description flag)", OF d k]
    by blast
qed

section \<open>Properties of the merge\<close>

lemma rtype_mergeInto: "rtype (mergeInto e d) = rtype e"
  by (simp add: mergeInto_def)



lemma types_mergeStep:
  "set (map rtype (mergeStep m d)) = insert (rtype d) (set (map rtype m))"
  by (induction m) (auto simp: rtype_mergeInto)


lemma types_foldl_mergeStep:
  "set (map rtype (foldl mergeStep m ds)) = set (map rtype m) \<union> set (map rtype ds)"
proof (induction ds arbitrary: m)
  case Nil
  then show ?case by simp
next
  case (Cons d ds)
  have "set (map rtype (foldl mergeStep (mergeStep m d) ds))
          = set (map rtype (mergeStep m d)) \<union> set (map rtype ds)"
    by (rule Cons.IH)
  then show ?case using types_mergeStep [of m d] by auto
qed










lemma confidence_foldl_mergeInto:
  "confidence (foldl mergeInto e g) = foldl (\<lambda>avg c. (avg + c) / 2) (confidence e) (map confidence g)"
  by (induction g arbitrary: e) (simp_all add: mergeInto_def)







lemma types_mergeRefactorTypes:
  "set (map rtype (mergeRefactorTypes ds)) = set (map rtype ds)"
  using types_foldl_mergeStep [of "[]" ds] by (simp add: mergeRefactorTypes_def)






section \<open>Properties of the classifier on a computed diff\<close>

lemma types_image_mergeRefactorTypes:
  "rtype ` set (mergeRefactorTypes ds) = rtype ` set ds"
  using types_mergeRefactorTypes [of ds] by simp

lemma extractMethod_in_patterns: "extractMethod \<in> set patterns"
  by (simp add: patterns_def)

lemma matches_kindRule:
  "matchesPattern (OfNode n) (kindRule (ntype (snd n)) IsNew) CondAdded"
  by (simp add: matchesPattern_def kindRule_def truthy_def)

lemma classify_reads_addedNodes:
  assumes ov: "overall ad = Some ov" and ns: "addedNodes ov = Some ns"
    and n: "n \<in> set ns"
    and kind: "ntype (snd n) \<in> {''function_declaration'', ''method_declaration'', ''function_definition''}"
  shows "''Extract Method'' \<in> set (map rtype (classify ad language))"
proof -
  from kind have "kindRule (ntype (snd n)) IsNew \<in> set (p_rules extractMethod)"
    by (auto simp: extractMethod_def)
  then have "\<exists>t \<in> set (detectRules (OfNode n) CondAdded extractMethod). rtype t = ''Extract Method''"
    using matches_kindRule [of n]
    by (force simp: detectRules_def extractMethod_def)
  then have "\<exists>t \<in> set (detectPatterns (OfNode n) CondAdded). rtype t = ''Extract Method''"
    using extractMethod_in_patterns by (force simp: detectPatterns_def)
  with n have "''Extract Method'' \<in> set (map rtype (concat (map (\<lambda>n. detectPatterns (OfNode n) CondAdded) ns)))"
    by force
  then show ?thesis
    using ov ns by (auto simp add: classify_def Let_def types_image_mergeRefactorTypes)
qed

lemma textRuleTypes_eval:
  "textRuleTypes =
     [''Service Extraction'', ''Layering'', ''Event-driven'', ''Cloud Migration'',
      ''Error Handling'', ''Logging/Observability'', ''Testing'', ''Containerization'',
      ''Infrastructure as Code'', ''Database Migration'']"
  by code_simp

lemma rtype_fileTextRules:
  "t \<in> set (fileTextRules dc p) \<Longrightarrow>
     rtype t = p_type p \<and> list_ex (\<lambda>r. truthy (r_text r)) (p_rules p)"
  by (auto simp: fileTextRules_def list_ex_iff split: if_splits)

lemma rtype_analyzeFileChanges:
  assumes "t \<in> set (analyzeFileChanges entry)"
  shows "rtype t \<in> set textRuleTypes \<or> rtype t = ''Move/Modularize''"
proof (cases "changes entry")
  case None
  with assms show ?thesis by (simp add: analyzeFileChanges_def)
next
  case (Some ch)
  with assms consider
      (byText) p where "p \<in> set patterns" "t \<in> set (fileTextRules (toLowerCase (the (textDiff ch))) p)"
    | (bySummary) "rtype t = ''Move/Modularize''"
    by (auto simp: analyzeFileChanges_def Let_def split: if_splits)
  then show ?thesis
  proof cases
    case byText
    from rtype_fileTextRules [OF byText(2)] byText(1) show ?thesis
      by (auto simp: textRuleTypes_def)
  next
    case bySummary
    then show ?thesis by simp
  qed
qed

lemma classify_computeDiffs:
  "classify (computeDiffs diffLines createPatch legacyAST refactoredAST m) language =
     mergeRefactorTypes
       (concat (map analyzeFileChanges
          (the (files (computeDiffs diffLines createPatch legacyAST refactoredAST m)))))"
  by (simp add: classify_def computeDiffs_def Let_def)

lemma classify_computeDiffs_types:
  assumes "ty \<in> set (map rtype (classify (computeDiffs diffLines createPatch legacyAST refactoredAST m) language))"
  shows "ty \<in> set textRuleTypes \<or> ty = ''Move/Modularize''"
proof -
  let ?fs = "the (files (computeDiffs diffLines createPatch legacyAST refactoredAST m))"
  from assms have "ty \<in> set (map rtype (concat (map analyzeFileChanges ?fs)))"
    unfolding classify_computeDiffs types_mergeRefactorTypes .
  then obtain t entry where "t \<in> set (analyzeFileChanges entry)" and "ty = rtype t"
    by auto
  with rtype_analyzeFileChanges show ?thesis by blast
qed

text \<open>
  Claim C2 fails on the code. \<open>classify\<close> looks for the node collections under
  \<open>overall.addedNodes\<close>, \<open>overall.removedNodes\<close> and \<open>overall.modifiedNodes\<close>, and
  \<open>computeDiffs\<close> stores only their lengths (\<open>nodesAdded\<close>, \<open>nodesRemoved\<close>,
  \<open>nodesModified\<close>). On a diff built by \<open>computeDiffs\<close> only the file-level rules run:
  when \<open>sub\<close> is added beside \<open>add\<close>, the added nodes contain a
  \<open>function_declaration\<close> and the tags contain no Extract Method, whatever the \<open>diff\<close>
  package returns.
\<close>

theorem classify_never_extract_method:
  "map (\<lambda>n. ntype (snd n))
       (added (computeASTChanges exAdd exAddSub (mapElements exAdd exAddSub [])))
     = [''program'', ''function_declaration'', ''identifier'']
   \<and> ''Extract Method'' \<notin> set (map rtype
         (classify (computeDiffs diffLines createPatch exAdd exAddSub
                      (mapElements exAdd exAddSub [])) language))"
proof -
  have a: "map (\<lambda>n. ntype (snd n))
       (added (computeASTChanges exAdd exAddSub (mapElements exAdd exAddSub [])))
     = [''program'', ''function_declaration'', ''identifier'']"
    by code_simp
  have b: "''Extract Method'' \<notin> set (map rtype
         (classify (computeDiffs diffLines createPatch exAdd exAddSub
                      (mapElements exAdd exAddSub [])) language))"
  proof
    assume "''Extract Method'' \<in> set (map rtype
         (classify (computeDiffs diffLines createPatch exAdd exAddSub
                      (mapElements exAdd exAddSub [])) language))"
    from classify_computeDiffs_types [OF this] show False
      by (simp add: textRuleTypes_eval)
  qed
  from a b show ?thesis by blast
qed

text \<open>
  Claim C3 fails on the code. In the rename scenario the mapper links the two functions
  (similarity \<open>23/28\<close>, above 0.7) and the pair is modified, but its recorded reasons are
  \<open>Content modified\<close> and \<open>Metadata changed\<close>: neither contains \<open>name\<close> or
  \<open>identifier\<close>, so \<open>hasNameChange\<close> is false; and the tags built from the diff of
  \<open>computeDiffs\<close> contain no Rename Symbol, whatever the \<open>diff\<close> package returns.
\<close>

theorem rename_not_detected:
  "mapKeys (mapElements exCompute exCalculate []) = [[0]]
   \<and> mapTargets (mapElements exCompute exCalculate []) = [[0]]
   \<and> calculateSimilarity (jsFunction ''computeTotal'') (jsFunction ''calculateTotal'') = 23 / 28
   \<and> map ch_changes (modified (computeASTChanges exCompute exCalculate
                                 (mapElements exCompute exCalculate [])))
        = [[''Content modified'', ''Metadata changed'']]
   \<and> \<not> list_ex (\<lambda>c. hasNameChange (OfChange c))
           (modified (computeASTChanges exCompute exCalculate
                        (mapElements exCompute exCalculate [])))
   \<and> ''Rename Symbol'' \<notin> set (map rtype
         (classify (computeDiffs diffLines createPatch exCompute exCalculate
                      (mapElements exCompute exCalculate [])) language))"
proof -
  have a: "mapKeys (mapElements exCompute exCalculate []) = [[0]]"
    and b: "mapTargets (mapElements exCompute exCalculate []) = [[0]]"
    and c: "calculateSimilarity (jsFunction ''computeTotal'') (jsFunction ''calculateTotal'') = 23 / 28"
    and d: "map ch_changes (modified (computeASTChanges exCompute exCalculate
                                 (mapElements exCompute exCalculate [])))
        = [[''Content modified'', ''Metadata changed'']]"
    and e: "\<not> list_ex (\<lambda>c. hasNameChange (OfChange c))
           (modified (computeASTChanges exCompute exCalculate
                        (mapElements exCompute exCalculate [])))"
    by code_simp+
  have f: "''Rename Symbol'' \<notin> set (map rtype
         (classify (computeDiffs diffLines createPatch exCompute exCalculate
                      (mapElements exCompute exCalculate [])) language))"
  proof
    assume "''Rename Symbol'' \<in> set (map rtype
         (classify (computeDiffs diffLines createPatch exCompute exCalculate
                      (mapElements exCompute exCalculate [])) language))"
    from classify_computeDiffs_types [OF this] show False
      by (simp add: textRuleTypes_eval)
  qed
  from a b c d e f show ?thesis by blast
qed

section \<open>Properties of identical sources\<close>

lemma areNodesEquivalent_refl: "areNodesEquivalent n n"
  by (simp add: areNodesEquivalent_def)

lemma findAddedNodes_same: "findAddedNodes t t m = []"
proof -
  have "list_ex (\<lambda>l. areNodesEquivalent (snd l) (snd x)) (collectAllNodes t)"
    if "x \<in> set (collectAllNodes t)" for x
    using that areNodesEquivalent_refl unfolding list_ex_iff by blast
  then show ?thesis
    by (simp add: findAddedNodes_def filter_empty_conv)
qed

lemma findRemovedNodes_same: "findRemovedNodes t t m = []"
proof -
  have "list_ex (\<lambda>r. areNodesEquivalent (snd x) (snd r)) (collectAllNodes t)"
    if "x \<in> set (collectAllNodes t)" for x
    using that areNodesEquivalent_refl unfolding list_ex_iff by blast
  then show ?thesis
    by (simp add: findRemovedNodes_def filter_empty_conv)
qed

lemma findModifiedNodes_equivalent:
  "list_all (\<lambda>e. areNodesEquivalent (snd (fst e)) (snd (snd e))) m \<Longrightarrow> findModifiedNodes m = []"
  by (induction m rule: findModifiedNodes.induct) simp_all

lemma mapSet_fresh: "\<not> mapHas m k \<Longrightarrow> mapSet m k v = m @ [(k, v)]"
  by (induction m) (auto simp: mapHas_def)

lemma parameterSimilarity_le: "parameterSimilarity p q \<le> 1"
proof -
  have "length (filter (\<lambda>x. x \<in> set q) p) \<le> length p"
    by (rule length_filter_le)
  also have "length p \<le> max (length p) (length q)"
    by simp
  finally have "length (filter (\<lambda>x. x \<in> set q) p) \<le> max (length p) (length q)" .
  then have "real (length (filter (\<lambda>x. x \<in> set q) p)) \<le> real (max (length p) (length q))"
    by (rule of_nat_mono)
  then have "real (length (filter (\<lambda>x. x \<in> set q) p)) / real (max (length p) (length q)) \<le> 1"
    if "p \<noteq> []" using that by (simp add: divide_le_eq_1 max_def)
  then show ?thesis
    by (simp add: parameterSimilarity_def)
qed

lemma nameSimilarity_lt: "a \<noteq> b \<Longrightarrow> nameSimilarity a b < 1"
proof -
  assume ne: "a \<noteq> b"
  then have "0 < levenshtein a b" by (rule levenshtein_pos)
  moreover from ne have "0 < max (length a) (length b)" by (auto simp: max_def)
  ultimately have "0 < real (levenshtein a b) / real (max (length a) (length b))"
    by simp
  with ne show ?thesis by (simp add: nameSimilarity_def)
qed

lemma typeSimilarity_le: "typeSimilarity k1 k2 \<le> 1"
  by (simp add: typeSimilarity_def)

lemma weightedSimilarity_lt:
  assumes "nameOrEmpty a \<noteq> nameOrEmpty b"
  shows "weightedSimilarity a b < 1"
proof -
  have "nameSimilarity (nameOrEmpty a) (nameOrEmpty b) < 1"
    using assms by (rule nameSimilarity_lt)
  moreover have "typeSimilarity (ntype a) (ntype b) \<le> 1"
    by (rule typeSimilarity_le)
  moreover have "parameterSimilarity (md_parameters (nmeta a)) (md_parameters (nmeta b)) \<le> 1"
    by (rule parameterSimilarity_le)
  ultimately show ?thesis
    unfolding weightedSimilarity_def by linarith
qed

lemma similarity_one_same_name:
  "1 \<le> calculateSimilarity a b \<Longrightarrow> nameOrEmpty a = nameOrEmpty b"
  using calculateSimilarity_other_name [of a b] weightedSimilarity_lt [of a b]
  by fastforce

text \<open>What the loop of \<open>findBestMatch\<close> returns.\<close>

lemma findBestMatchLoop_result:
  "((\<forall>x \<in> set cs. calculateSimilarity tgt (snd x) \<le> bs)
      \<and> findBestMatchLoop tgt cs best bs = best)
   \<or> (\<exists>c \<in> set cs. findBestMatchLoop tgt cs best bs = Some (c, calculateSimilarity tgt (snd c))
         \<and> bs < calculateSimilarity tgt (snd c)
         \<and> (\<forall>x \<in> set cs. calculateSimilarity tgt (snd x) \<le> calculateSimilarity tgt (snd c)))"
proof (induction cs arbitrary: best bs)
  case Nil
  then show ?case by simp
next
  case (Cons cand rest)
  let ?s = "calculateSimilarity tgt (snd cand)"
  show ?case
  proof (cases "bs < ?s")
    case True
    from Cons.IH [of ?s "Some (cand, ?s)"] True show ?thesis
      by (auto simp: Let_def intro: order.trans less_imp_le less_trans)
  next
    case False
    from Cons.IH [of bs best] False show ?thesis
      by (auto simp: Let_def intro: order.trans less_imp_le)
  qed
qed

lemma findBestMatch_self:
  assumes L: "L \<in> set N"
    and names: "distinct (map (\<lambda>n. nameOrEmpty (snd n)) N)"
    and res: "findBestMatch (snd L) N = Some (c, s)"
  shows "c = L"
proof -
  have one: "calculateSimilarity (snd L) (snd L) = 1"
    by (rule calculateSimilarity_same_name) simp
  from findBestMatchLoop_result [of N "snd L" 0 None] res
  obtain c' where c': "c' \<in> set N"
    and r: "findBestMatchLoop (snd L) N None 0 = Some (c', calculateSimilarity (snd L) (snd c'))"
    and mx: "\<forall>x \<in> set N. calculateSimilarity (snd L) (snd x) \<le> calculateSimilarity (snd L) (snd c')"
    unfolding findBestMatch_def by auto
  from r res have cc: "c = c'" by (simp add: findBestMatch_def)
  from mx L one have "1 \<le> calculateSimilarity (snd L) (snd c')" by fastforce
  then have "nameOrEmpty (snd L) = nameOrEmpty (snd c')"
    by (rule similarity_one_same_name)
  moreover from names have "inj_on (\<lambda>n. nameOrEmpty (snd n)) (set N)"
    by (simp add: distinct_map)
  ultimately have "L = c'" using L c' by (auto dest: inj_onD)
  with cc show ?thesis by simp
qed

lemma autoMap_equivalent:
  assumes "set Ls \<subseteq> set N" and "distinct (map (\<lambda>n. nameOrEmpty (snd n)) N)"
    and "list_all (\<lambda>e. areNodesEquivalent (snd (fst e)) (snd (snd e))) m"
  shows "list_all (\<lambda>e. areNodesEquivalent (snd (fst e)) (snd (snd e))) (autoMap Ls N m)"
  using assms
proof (induction Ls arbitrary: m)
  case Nil
  then show ?case by simp
next
  case (Cons L Ls)
  let ?m' = "if \<not> mapHas m L then
          (case findBestMatch (snd L) N of
             Some (bestNode, similarity) \<Rightarrow>
               if similarity > 7 / 10 then mapSet m L bestNode else m
           | None \<Rightarrow> m)
        else m"
  have "list_all (\<lambda>e. areNodesEquivalent (snd (fst e)) (snd (snd e))) ?m'"
  proof (cases "mapHas m L")
    case True
    with Cons.prems(3) show ?thesis by simp
  next
    case False
    show ?thesis
    proof (cases "findBestMatch (snd L) N")
      case None
      with False Cons.prems(3) show ?thesis by simp
    next
      case (Some r)
      obtain c s where r: "r = (c, s)" by (cases r)
      from Cons.prems(1) have "L \<in> set N" by simp
      from findBestMatch_self [OF this Cons.prems(2)] Some r have "c = L" by simp
      with False Some r Cons.prems(3) show ?thesis
        by (simp add: mapSet_fresh areNodesEquivalent_refl)
    qed
  qed
  moreover from Cons.prems(1) have "set Ls \<subseteq> set N" by simp
  ultimately show ?case
    unfolding autoMap.simps using Cons.IH Cons.prems(2) by blast
qed

lemma computeASTChanges_same:
  assumes "distinct (map (\<lambda>n. nameOrEmpty (snd n)) (collectNamedNodes t))"
  shows "computeASTChanges t t (mapElements t t []) = \<lparr>added = [], removed = [], modified = []\<rparr>"
proof -
  have "list_all (\<lambda>e. areNodesEquivalent (snd (fst e)) (snd (snd e))) (mapElements t t [])"
    unfolding mapElements_def applyHints.simps
    by (rule autoMap_equivalent [OF _ assms]) simp_all
  then show ?thesis
    by (simp add: computeASTChanges_def findAddedNodes_same findRemovedNodes_same
        findModifiedNodes_equivalent)
qed

lemma countLines_unchanged:
  "list_all (\<lambda>c. \<not> lc_added c \<and> \<not> lc_removed c) cs \<Longrightarrow> countLines cs acc = acc"
  by (induction cs acc rule: countLines.induct) simp_all

lemma mathRound_ge: "5 \<le> x \<Longrightarrow> 5 \<le> mathRound x"
proof -
  assume "5 \<le> x"
  then have "(5::int) \<le> \<lfloor>x + 1 / 2\<rfloor>" by (simp add: le_floor_iff)
  then show ?thesis unfolding mathRound_def
    by (metis of_int_le_iff of_int_numeral)
qed

lemma overallScore_no_tags:
  assumes "cyclomaticComplexityDelta m = 0"
  shows "5 \<le> calculateOverallScore m"
proof -
  have l: "0 \<le> normalizeLinesChanged x" for x
    using logistic_pos [of "- (x - 200) / 100"] by (simp add: normalizeLinesChanged_def)
  have a: "0 \<le> normalizeASTNodes x" for x
    using logistic_pos [of "- (x - 50) / 25"] by (simp add: normalizeASTNodes_def)
  have i: "0 \<le> normalizeInfrastructure (real n)" for n
    by (simp add: normalizeInfrastructure_def)
  have c: "0 \<le> normalizeTestCoverage x" for x
    by (simp add: normalizeTestCoverage_def)
  have x: "normalizeComplexity (of_int (cyclomaticComplexityDelta m)) = 50"
    using assms by (simp add: normalizeComplexity_def)
  have "5 \<le> weightedSum m"
    unfolding weightedSum_def x
    using l [of "real (totalLinesChanged m)"] a [of "real (astNodesChanged m)"]
      i [of "newInfrastructureComponents m"] c [of "of_int (testCoverageDelta m)"]
    by simp
  moreover have "weightedSum m \<le> 100 \<or> 100 < weightedSum m" by linarith
  ultimately have "5 \<le> min (max (weightedSum m) 0) 100" by auto
  then show ?thesis unfolding calculateOverallScore_def by (rule mathRound_ge)
qed

text \<open>
  Claim C4, as amended. Let legacy and refactored be the same tree, with no hints, no two
  named nodes sharing a name, and a line diff that reports no added and no removed line.
  Then the added, removed and modified sets are empty and the metrics count no changed
  line and no changed node. The overall score is not 0: when no tag is detected, the
  complexity normalizer alone stands at its midpoint 50 and contributes 5.
\<close>

theorem identical_sources:
  assumes names: "distinct (map (\<lambda>n. nameOrEmpty (snd n)) (collectNamedNodes t))"
    and lines: "list_all (\<lambda>c. \<not> lc_added c \<and> \<not> lc_removed c) (diffLines (ntext t) (ntext t))"
  shows "computeASTChanges t t (mapElements t t []) = \<lparr>added = [], removed = [], modified = []\<rparr>
    \<and> totalLinesChanged (detailed (calculate
          (computeDiffs diffLines createPatch t t (mapElements t t [])) tags language)) = 0
    \<and> astNodesChanged (detailed (calculate
          (computeDiffs diffLines createPatch t t (mapElements t t [])) tags language)) = 0
    \<and> (classify (computeDiffs diffLines createPatch t t (mapElements t t [])) language = []
         \<longrightarrow> 5 \<le> overallScore (calculate
                  (computeDiffs diffLines createPatch t t (mapElements t t []))
                  (classify (computeDiffs diffLines createPatch t t (mapElements t t [])) language)
                  language))"
proof -
  let ?ad = "computeDiffs diffLines createPatch t t (mapElements t t [])"
  have ch: "computeASTChanges t t (mapElements t t []) = \<lparr>added = [], removed = [], modified = []\<rparr>"
    using names by (rule computeASTChanges_same)
  have cl: "countLines (diffLines (ntext t) (ntext t)) (0, 0) = (0, 0)"
    using lines by (rule countLines_unchanged)
  have ov: "overall ?ad = Some \<lparr>nodesAdded = 0, nodesRemoved = 0, nodesModified = 0,
              linesAdded = 0, linesRemoved = 0, addedNodes = None, removedNodes = None,
              modifiedNodes = None, linesModified = None\<rparr>"
    by (simp add: computeDiffs_def Let_def ch cl astToText_def)
  have m1: "totalLinesChanged (detailed (calculate ?ad tags language)) = 0"
    and m2: "astNodesChanged (detailed (calculate ?ad tags language)) = 0"
    by (simp_all add: calculate_def Let_def calculateMetrics_def ov)
  have "5 \<le> overallScore (calculate ?ad [] language)"
    by (simp add: calculate_def Let_def overallScore_no_tags calculateMetrics_def
        calculateComplexityDelta_def)
  with ch m1 m2 show ?thesis by simp
qed

lemma exUnchanged_no_tags: "classify exUnchangedDiffs ''javascript'' = []"
  by code_simp

lemma exUnchanged_metrics: "calculateMetrics exUnchangedDiffs [] ''javascript'' =
   \<lparr>totalLinesChanged = 0, filesModified = 1, cyclomaticComplexityDelta = 0, testCoverageDelta = 0,
    astNodesChanged = 0, newInfrastructureComponents = 0, architecturalChanges = 0\<rparr>"
  by code_simp

lemma exUnchanged_score: "calculateOverallScore
   \<lparr>totalLinesChanged = 0, filesModified = 1, cyclomaticComplexityDelta = 0, testCoverageDelta = 0,
    astNodesChanged = 0, newInfrastructureComponents = 0, architecturalChanges = 0\<rparr> = 20"
  by (simp add: calculateOverallScore_def weightedSum_def normalizeLinesChanged_def
      normalizeASTNodes_def normalizeInfrastructure_def normalizeTestCoverage_def
      normalizeComplexity_def mathRound_def)

theorem identical_sources_witness:
  "distinct (map (\<lambda>n. nameOrEmpty (snd n)) (collectNamedNodes exAdd))
   \<and> list_all (\<lambda>c. \<not> lc_added c \<and> \<not> lc_removed c)
         (exDiffLinesUnchanged (ntext exAdd) (ntext exAdd))
   \<and> computeASTChanges exAdd exAdd (mapElements exAdd exAdd [])
        = \<lparr>added = [], removed = [], modified = []\<rparr>
   \<and> classify exUnchangedDiffs ''javascript'' = []
   \<and> 5 \<le> overallScore (calculate exUnchangedDiffs
                (classify exUnchangedDiffs ''javascript'') ''javascript'')"
proof -
  have names: "distinct (map (\<lambda>n. nameOrEmpty (snd n)) (collectNamedNodes exAdd))"
    by code_simp
  have lines: "list_all (\<lambda>c. \<not> lc_added c \<and> \<not> lc_removed c)
         (exDiffLinesUnchanged (ntext exAdd) (ntext exAdd))"
    by code_simp
  note r = identical_sources [where t = exAdd and diffLines = exDiffLinesUnchanged
      and createPatch = exPatchUnchanged and tags = "[]" and language = "''javascript''",
      OF names lines]
  from r have "computeASTChanges exAdd exAdd (mapElements exAdd exAdd [])
        = \<lparr>added = [], removed = [], modified = []\<rparr>"
    by blast
  moreover from r exUnchanged_no_tags
  have "5 \<le> overallScore (calculate exUnchangedDiffs
                (classify exUnchangedDiffs ''javascript'') ''javascript'')"
    unfolding exUnchangedDiffs_def by blast
  ultimately show ?thesis using names lines exUnchanged_no_tags by blast
qed

text \<open>
  Claim C4, as stated, fails on its own example: for \<open>function add(a,b){return a+b;}\<close> on
  both sides the overall score is 20 and the level is 1.
\<close>

theorem identical_sources_counterexample:
  "overallScore (calculate exUnchangedDiffs (classify exUnchangedDiffs ''javascript'') ''javascript'') = 20
   \<and> impactLevel (calculate exUnchangedDiffs (classify exUnchangedDiffs ''javascript'') ''javascript'') = 1"
proof -
  have "calculate exUnchangedDiffs (classify exUnchangedDiffs ''javascript'') ''javascript''
      = \<lparr>overallScore = 20, impactLevel = determineLevel 20,
         detailed = \<lparr>totalLinesChanged = 0, filesModified = 1, cyclomaticComplexityDelta = 0,
           testCoverageDelta = 0, astNodesChanged = 0, newInfrastructureComponents = 0,
           architecturalChanges = 0\<rparr>\<rparr>"
    unfolding calculate_def Let_def exUnchanged_no_tags exUnchanged_metrics exUnchanged_score by (rule refl)
  moreover have "determineLevel 20 = 1"
    by (simp add: determineLevel_def levelThresholds_def)
  ultimately show ?thesis by simp
qed

end
